theory Spec2Isabelle
  imports Complex_Main "HOL-Library.Log_Nat"
begin

section \<open>Data model\<close>

text \<open>
  The services of the finance tracker read and write a relational store through Prisma.
  The store is modelled as a record of tables, each table a list of rows in insertion
  order. Monetary amounts are Prisma decimals, kept as rationals; \<open>Number(...)\<close>
  turns a decimal into the nearest double, and the budget and analytics services compute
  with doubles. Instants (\<open>Date\<close>) are milliseconds since the epoch.

  Descriptive columns that no operation of the services reads (currency, merchant name,
  notes, tags, receipt reference, tax fields, institution, icons) are left out of the rows.
\<close>

datatype TransactionType = INCOME | EXPENSE | TRANSFER

text \<open>
  Modelled from the spec: the Prisma schema that declares \<open>TransactionStatus\<close> and
  \<open>BudgetPeriod\<close> is not part of the sources. The code only names the member
  \<open>POSTED\<close>; every other status is kept as \<open>OtherStatus\<close> with its name. The budget
  periods are the weekly, monthly and yearly periods of the data model.
\<close>

datatype TransactionStatus = POSTED | OtherStatus string

datatype BudgetPeriod = WEEKLY | MONTHLY | YEARLY

record Account =
  accId :: string
  accUserId :: string
  accBalance :: rat
  accIsActive :: bool

record Category =
  catId :: string
  catName :: string
  catUserId :: "string option"
  catIsSystem :: bool

record Transaction =
  txId :: string
  txUserId :: string
  txAccountId :: string
  txAmount :: rat
  txType :: TransactionType
  txDescription :: string
  txCategoryId :: "string option"
  txDate :: int
  txStatus :: TransactionStatus

record Budget =
  bId :: string
  bUserId :: string
  bName :: string
  bAmount :: rat
  bPeriod :: BudgetPeriod
  bStartDate :: int
  bEndDate :: "int option"
  bCategoryId :: "string option"
  bAlertEnabled :: bool
  bAlertThreshold :: "rat option"
  bCreatedAt :: int

record Db =
  accounts :: "Account list"
  categories :: "Category list"
  transactions :: "Transaction list"
  budgets :: "Budget list"

text \<open>
  \<open>AppError\<close> is the application error with its HTTP status and message;
  \<open>PrismaRecordNotFound\<close> is what \<open>update\<close> and \<open>delete\<close> of Prisma raise when no
  row has the given id.
\<close>

datatype error = AppError nat string | PrismaRecordNotFound

subsection \<open>JavaScript values\<close>

text \<open>
  A finite JavaScript number is a double: a rational with a significand of 53 bits. It is
  represented by its rational value, and every arithmetic operation rounds its exact result
  to the nearest double, ties going to the even significand. The range of the exponent is
  not bounded here: overflow to an infinity and gradual underflow, which need magnitudes
  beyond about 1.8e308 or below 2.2e-308, are not modelled. Negative zero is not
  distinguished from zero.

  \<open>binaryExponent a\<close> is the \<open>e\<close> with \<open>2^e \<le> a < 2^(e + 1)\<close> for a positive \<open>a\<close>.
\<close>

definition unitRoundoff :: rat where
  "unitRoundoff = 1 / 2 ^ 53"

definition binaryExponent :: "rat \<Rightarrow> int" where
  "binaryExponent a =
     (if 1 \<le> a then bitlen \<lfloor>a\<rfloor> - 1 else - bitlen (\<lceil>1 / a\<rceil> - 1))"

definition roundHalfEven :: "rat \<Rightarrow> int" where
  "roundHalfEven y =
     (let n = \<lfloor>y\<rfloor>; r = y - of_int n
      in if r < 1 / 2 then n
         else if 1 / 2 < r then n + 1
         else if even n then n else n + 1)"

text \<open>\<open>Number(d)\<close> for a decimal \<open>d\<close>, and the rounding of every exact result.\<close>

definition toDouble :: "rat \<Rightarrow> rat" where
  "toDouble x =
     (if x = 0 then 0
      else
        (let quantum = 2 powi (binaryExponent \<bar>x\<bar> - 52)
         in of_int (roundHalfEven (x / quantum)) * quantum))"

text \<open>\<open>x + y\<close> and \<open>x - y\<close> on doubles.\<close>

definition js_plus :: "rat \<Rightarrow> rat \<Rightarrow> rat" where
  "js_plus x y = toDouble (x + y)"

definition js_minus :: "rat \<Rightarrow> rat \<Rightarrow> rat" where
  "js_minus x y = toDouble (x - y)"

text \<open>
  A division in JavaScript never throws: a zero divisor gives an infinity or \<open>NaN\<close>.
  Results of divisions are therefore values of \<open>jsnum\<close>.
\<close>

datatype jsnum = Fin rat | PosInf | NegInf | NaN

definition js_div :: "rat \<Rightarrow> rat \<Rightarrow> jsnum" where
  "js_div x y =
     (if y \<noteq> 0 then Fin (toDouble (x / y))
      else if 0 < x then PosInf
      else if x < 0 then NegInf
      else NaN)"

fun js_times :: "jsnum \<Rightarrow> rat \<Rightarrow> jsnum" where
  "js_times (Fin a) c = Fin (toDouble (a * c))"
| "js_times PosInf c = (if 0 < c then PosInf else if c < 0 then NegInf else NaN)"
| "js_times NegInf c = (if 0 < c then NegInf else if c < 0 then PosInf else NaN)"
| "js_times NaN c = NaN"

fun js_ge :: "jsnum \<Rightarrow> jsnum \<Rightarrow> bool" where
  "js_ge NaN _ = False"
| "js_ge _ NaN = False"
| "js_ge PosInf _ = True"
| "js_ge _ NegInf = True"
| "js_ge (Fin a) (Fin b) = (b \<le> a)"
| "js_ge (Fin a) PosInf = False"
| "js_ge NegInf _ = False"

fun js_max :: "jsnum \<Rightarrow> jsnum \<Rightarrow> jsnum" where
  "js_max NaN _ = NaN"
| "js_max _ NaN = NaN"
| "js_max PosInf _ = PosInf"
| "js_max _ PosInf = PosInf"
| "js_max NegInf y = y"
| "js_max x NegInf = x"
| "js_max (Fin a) (Fin b) = Fin (max a b)"




text \<open>A string operand of \<open>if (s)\<close> or \<open>s || d\<close> counts when it is present and not empty.\<close>

fun truthy :: "string option \<Rightarrow> bool" where
  "truthy None = False"
| "truthy (Some s) = (s \<noteq> [])"

subsection \<open>Store access\<close>

text \<open>
  \<open>prisma.transaction.aggregate({ where, _sum: { amount: true } })\<close> followed by
  \<open>Number(result._sum.amount || 0)\<close>: the sum of the matching rows, 0 when none
  matches.
\<close>

definition aggregateAmount :: "(Transaction \<Rightarrow> bool) \<Rightarrow> Db \<Rightarrow> rat" where
  "aggregateAmount wh db = sum_list (map txAmount (filter wh (transactions db)))"

text \<open>\<open>prisma.account.update({ where: { id }, data: { balance } })\<close>.\<close>

definition accountUpdateBalance :: "string \<Rightarrow> rat \<Rightarrow> Db \<Rightarrow> error + Db" where
  "accountUpdateBalance accountId balance db =
     (case find (\<lambda>a. accId a = accountId) (accounts db) of
        None \<Rightarrow> Inl PrismaRecordNotFound
      | Some _ \<Rightarrow>
          Inr (db\<lparr>accounts :=
                 map (\<lambda>a. if accId a = accountId then a\<lparr>accBalance := balance\<rparr> else a)
                   (accounts db)\<rparr>))"

text \<open>A Prisma \<open>update\<close> or \<open>delete\<close> by primary key acts on the row with that key.\<close>

fun updateFirst :: "('a \<Rightarrow> bool) \<Rightarrow> ('a \<Rightarrow> 'a) \<Rightarrow> 'a list \<Rightarrow> 'a list" where
  "updateFirst p f [] = []"
| "updateFirst p f (x # xs) = (if p x then f x # xs else x # updateFirst p f xs)"

fun deleteFirst :: "('a \<Rightarrow> bool) \<Rightarrow> 'a list \<Rightarrow> 'a list" where
  "deleteFirst p [] = []"
| "deleteFirst p (x # xs) = (if p x then xs else x # deleteFirst p xs)"

section \<open>Transaction service\<close>

record CreateTransactionData =
  cAccountId :: string
  cAmount :: rat
  cType :: TransactionType
  cDescription :: string
  cCategoryId :: "string option"
  cDate :: int

text \<open>\<open>UpdateTransactionData\<close> is \<open>Partial<CreateTransactionData>\<close>: every field may be absent.\<close>

record UpdateTransactionData =
  uAccountId :: "string option"
  uAmount :: "rat option"
  uType :: "TransactionType option"
  uDescription :: "string option"
  uCategoryId :: "string option"
  uDate :: "int option"

definition updateAccountBalance :: "string \<Rightarrow> Db \<Rightarrow> error + Db" where
  "updateAccountBalance accountId db =
     (let totalIncome =
            aggregateAmount
              (\<lambda>t. txAccountId t = accountId \<and> txType t = INCOME \<and> txStatus t = POSTED) db;
          totalExpenses =
            aggregateAmount
              (\<lambda>t. txAccountId t = accountId \<and> txType t = EXPENSE \<and> txStatus t = POSTED) db;
          balance = totalIncome - totalExpenses
      in accountUpdateBalance accountId balance db)"

text \<open>
  The category check shared by the create and update paths:
  \<open>findFirst({ where: { id, OR: [{ userId }, { isSystem: true }] } })\<close>.
\<close>

definition findCategory :: "string \<Rightarrow> string \<Rightarrow> Db \<Rightarrow> Category option" where
  "findCategory userId categoryId db =
     find (\<lambda>c. catId c = categoryId \<and> (catUserId c = Some userId \<or> catIsSystem c))
       (categories db)"

definition findAccount :: "string \<Rightarrow> string \<Rightarrow> Db \<Rightarrow> Account option" where
  "findAccount userId accountId db =
     find (\<lambda>a. accId a = accountId \<and> accUserId a = userId) (accounts db)"

definition findTransaction :: "string \<Rightarrow> string \<Rightarrow> Db \<Rightarrow> Transaction option" where
  "findTransaction userId transactionId db =
     find (\<lambda>t. txId t = transactionId \<and> txUserId t = userId) (transactions db)"

text \<open>
  In \<open>updateAccountBalance\<close> the two sums and their difference are kept exact: the
  number it computes is written to a decimal column of the store, and the schema that
  declares the precision of that column is not part of the sources.
\<close>

text \<open>
  \<open>createTransaction\<close>. The id of the new row is generated by the store and is an
  argument here. The row is the spread of \<open>data\<close> followed by \<open>userId\<close> and
  \<open>status: TransactionStatus.POSTED\<close>.

  An operation returns either the error it throws or its result together with the store it
  leaves. A recalculation can only throw after a write when the account of a stored
  transaction has no row, which the foreign key of the store excludes; the store left
  behind by such a throw is not modelled.
\<close>

definition newTransaction :: "string \<Rightarrow> string \<Rightarrow> CreateTransactionData \<Rightarrow> Transaction" where
  "newTransaction newId userId data =
     \<lparr>txId = newId, txUserId = userId, txAccountId = cAccountId data,
      txAmount = cAmount data, txType = cType data, txDescription = cDescription data,
      txCategoryId = cCategoryId data, txDate = cDate data, txStatus = POSTED\<rparr>"

definition createTransaction ::
  "string \<Rightarrow> CreateTransactionData \<Rightarrow> string \<Rightarrow> Db \<Rightarrow> error + (Transaction \<times> Db)" where
  "createTransaction userId data newId db =
     (case findAccount userId (cAccountId data) db of
        None \<Rightarrow> Inl (AppError 404 ''Account not found'')
      | Some _ \<Rightarrow>
          if truthy (cCategoryId data)
             \<and> findCategory userId (the (cCategoryId data)) db = None
          then Inl (AppError 404 ''Category not found'')
          else
            (let transaction = newTransaction newId userId data;
                 db1 = db\<lparr>transactions := transactions db @ [transaction]\<rparr>
             in case updateAccountBalance (cAccountId data) db1 of
                  Inl e \<Rightarrow> Inl e
                | Inr db2 \<Rightarrow> Inr (transaction, db2)))"

text \<open>The fields present in \<open>data\<close> overwrite those of the row.\<close>

definition applyUpdate :: "UpdateTransactionData \<Rightarrow> Transaction \<Rightarrow> Transaction" where
  "applyUpdate data t =
     t\<lparr>txAccountId := (case uAccountId data of None \<Rightarrow> txAccountId t | Some v \<Rightarrow> v),
       txAmount := (case uAmount data of None \<Rightarrow> txAmount t | Some v \<Rightarrow> v),
       txType := (case uType data of None \<Rightarrow> txType t | Some v \<Rightarrow> v),
       txDescription := (case uDescription data of None \<Rightarrow> txDescription t | Some v \<Rightarrow> v),
       txCategoryId := (case uCategoryId data of None \<Rightarrow> txCategoryId t | Some v \<Rightarrow> Some v),
       txDate := (case uDate data of None \<Rightarrow> txDate t | Some v \<Rightarrow> v)\<rparr>"

definition updateTransaction ::
  "string \<Rightarrow> string \<Rightarrow> UpdateTransactionData \<Rightarrow> Db \<Rightarrow> error + (Transaction \<times> Db)" where
  "updateTransaction userId transactionId data db =
     (case findTransaction userId transactionId db of
        None \<Rightarrow> Inl (AppError 404 ''Transaction not found'')
      | Some existingTransaction \<Rightarrow>
          if truthy (uAccountId data)
             \<and> findAccount userId (the (uAccountId data)) db = None
          then Inl (AppError 404 ''Account not found'')
          else if truthy (uCategoryId data)
             \<and> findCategory userId (the (uCategoryId data)) db = None
          then Inl (AppError 404 ''Category not found'')
          else
            (case find (\<lambda>t. txId t = transactionId) (transactions db) of
               None \<Rightarrow> Inl PrismaRecordNotFound
             | Some row \<Rightarrow>
                (let transaction = applyUpdate data row;
                     db1 = db\<lparr>transactions :=
                              updateFirst (\<lambda>t. txId t = transactionId) (applyUpdate data)
                                (transactions db)\<rparr>
                 in if uAmount data \<noteq> None \<or> truthy (uAccountId data)
                    then
                      (case updateAccountBalance (txAccountId transaction) db1 of
                         Inl e \<Rightarrow> Inl e
                       | Inr db2 \<Rightarrow>
                           if truthy (uAccountId data)
                              \<and> the (uAccountId data) \<noteq> txAccountId existingTransaction
                           then
                             (case updateAccountBalance (txAccountId existingTransaction) db2 of
                                Inl e \<Rightarrow> Inl e
                              | Inr db3 \<Rightarrow> Inr (transaction, db3))
                           else Inr (transaction, db2))
                    else Inr (transaction, db1))))"

definition deleteTransaction :: "string \<Rightarrow> string \<Rightarrow> Db \<Rightarrow> error + Db" where
  "deleteTransaction userId transactionId db =
     (case findTransaction userId transactionId db of
        None \<Rightarrow> Inl (AppError 404 ''Transaction not found'')
      | Some transaction \<Rightarrow>
          (let db1 = db\<lparr>transactions :=
                        deleteFirst (\<lambda>t. txId t = transactionId) (transactions db)\<rparr>
           in updateAccountBalance (txAccountId transaction) db1))"

section \<open>Budget service\<close>

text \<open>\<open>BudgetWithProgress\<close> extends the budget row with the four derived fields.\<close>

record BudgetWithProgress = Budget +
  spent :: rat
  remaining :: rat
  percentageUsed :: jsnum
  isOverBudget :: bool

definition calculateSpending :: "string \<Rightarrow> 'a Budget_scheme \<Rightarrow> Db \<Rightarrow> rat" where
  "calculateSpending userId budget db =
     toDouble
       (aggregateAmount
          (\<lambda>t. txUserId t = userId \<and> txType t = EXPENSE \<and> txStatus t = POSTED
               \<and> bStartDate budget \<le> txDate t
               \<and> (case bEndDate budget of None \<Rightarrow> True | Some endDate \<Rightarrow> txDate t \<le> endDate)
               \<and> (if truthy (bCategoryId budget) then txCategoryId t = bCategoryId budget
                   else True))
          db)"

text \<open>
  The progress computation, written out in the same words in \<open>getBudgets\<close> and in
  \<open>getBudget\<close>: the division by the budget amount is not guarded.
\<close>

definition budgetProgress :: "string \<Rightarrow> Db \<Rightarrow> Budget \<Rightarrow> BudgetWithProgress" where
  "budgetProgress userId db budget =
     (let spent = calculateSpending userId budget db;
          remaining = js_minus (toDouble (bAmount budget)) spent;
          percentageUsed = js_times (js_div spent (toDouble (bAmount budget))) 100;
          isOverBudget = (toDouble (bAmount budget) < spent)
      in Budget.extend budget
           (BudgetWithProgress.fields spent remaining percentageUsed isOverBudget))"

text \<open>
  \<open>findMany\<close> with \<open>orderBy: { createdAt: 'desc' }\<close>; rows created at the same instant
  keep their table order.
\<close>

definition getBudgets :: "string \<Rightarrow> BudgetPeriod option \<Rightarrow> Db \<Rightarrow> BudgetWithProgress list" where
  "getBudgets userId period db =
     (let budgets =
            sort_key (\<lambda>b. - bCreatedAt b)
              (filter
                 (\<lambda>b. bUserId b = userId
                      \<and> (case period of None \<Rightarrow> True | Some p \<Rightarrow> bPeriod b = p))
                 (budgets db))
      in map (budgetProgress userId db) budgets)"

definition getBudget :: "string \<Rightarrow> string \<Rightarrow> Db \<Rightarrow> error + BudgetWithProgress" where
  "getBudget userId budgetId db =
     (case find (\<lambda>b. bId b = budgetId \<and> bUserId b = userId) (budgets db) of
        None \<Rightarrow> Inl (AppError 404 ''Budget not found'')
      | Some budget \<Rightarrow> Inr (budgetProgress userId db budget))"





section \<open>Calendar\<close>

text \<open>
  The analytics service takes its date arithmetic from the date-fns library, which is
  not part of the repository. Its functions are modelled from their documentation, for a
  server whose local time is UTC: an instant is a number of milliseconds, a day has
  86400000 of them, and the civil calendar is the proleptic Gregorian one.
\<close>

definition msPerDay :: int where
  "msPerDay = 86400000"

definition dayNumber :: "int \<Rightarrow> int" where
  "dayNumber t = t div msPerDay"

definition timeOfDay :: "int \<Rightarrow> int" where
  "timeOfDay t = t mod msPerDay"

definition isLeapYear :: "int \<Rightarrow> bool" where
  "isLeapYear y = (y mod 4 = 0 \<and> (y mod 100 \<noteq> 0 \<or> y mod 400 = 0))"

definition daysInMonth :: "int \<Rightarrow> int \<Rightarrow> int" where
  "daysInMonth y m =
     (if m = 2 then (if isLeapYear y then 29 else 28)
      else if m = 4 \<or> m = 6 \<or> m = 9 \<or> m = 11 then 30
      else 31)"

text \<open>Day number of the civil date \<open>y-m-d\<close>, and the civil date of a day number.\<close>

definition daysFromCivil :: "int \<Rightarrow> int \<Rightarrow> int \<Rightarrow> int" where
  "daysFromCivil y m d =
     (let y' = (if m \<le> 2 then y - 1 else y);
          era = y' div 400;
          yoe = y' - era * 400;
          doy = (153 * (if 2 < m then m - 3 else m + 9) + 2) div 5 + d - 1;
          doe = yoe * 365 + yoe div 4 - yoe div 100 + doy
      in era * 146097 + doe - 719468)"

definition civilFromDays :: "int \<Rightarrow> int \<times> int \<times> int" where
  "civilFromDays z =
     (let z' = z + 719468;
          era = z' div 146097;
          doe = z' - era * 146097;
          yoe = (doe - doe div 1460 + doe div 36524 - doe div 146096) div 365;
          doy = doe - (365 * yoe + yoe div 4 - yoe div 100);
          mp = (5 * doy + 2) div 153;
          d = doy - (153 * mp + 2) div 5 + 1;
          m = (if mp < 10 then mp + 3 else mp - 9);
          y = yoe + era * 400
      in (if m \<le> 2 then y + 1 else y, m, d))"

definition yearOf :: "int \<Rightarrow> int" where
  "yearOf t = fst (civilFromDays (dayNumber t))"

definition monthOf :: "int \<Rightarrow> int" where
  "monthOf t = fst (snd (civilFromDays (dayNumber t)))"

definition dayOfMonth :: "int \<Rightarrow> int" where
  "dayOfMonth t = snd (snd (civilFromDays (dayNumber t)))"

text \<open>Months counted from year 0, so that the month after December is the next index.\<close>

definition monthIndex :: "int \<Rightarrow> int" where
  "monthIndex t = yearOf t * 12 + (monthOf t - 1)"

definition monthStart :: "int \<Rightarrow> int" where
  "monthStart i = daysFromCivil (i div 12) (i mod 12 + 1) 1 * msPerDay"

definition startOfMonth :: "int \<Rightarrow> int" where
  "startOfMonth t = monthStart (monthIndex t)"

definition endOfMonth :: "int \<Rightarrow> int" where
  "endOfMonth t = monthStart (monthIndex t + 1) - 1"

definition startOfYear :: "int \<Rightarrow> int" where
  "startOfYear t = daysFromCivil (yearOf t) 1 1 * msPerDay"

definition endOfYear :: "int \<Rightarrow> int" where
  "endOfYear t = daysFromCivil (yearOf t + 1) 1 1 * msPerDay - 1"

text \<open>Weeks start on Sunday; day number 0 was a Thursday.\<close>

definition startOfWeek :: "int \<Rightarrow> int" where
  "startOfWeek t = (dayNumber t - (dayNumber t + 4) mod 7) * msPerDay"

definition endOfWeek :: "int \<Rightarrow> int" where
  "endOfWeek t = startOfWeek t + 7 * msPerDay - 1"

text \<open>
  \<open>subMonths\<close> keeps the day of the month and the time of day, and falls back to the
  last day of the target month when that month is shorter.
\<close>

definition subMonths :: "int \<Rightarrow> int \<Rightarrow> int" where
  "subMonths t n =
     (let i = monthIndex t - n;
          y = i div 12;
          m = i mod 12 + 1;
          d = min (dayOfMonth t) (daysInMonth y m)
      in daysFromCivil y m d * msPerDay + timeOfDay t)"

definition eachDayOfInterval :: "int \<Rightarrow> int \<Rightarrow> int list" where
  "eachDayOfInterval startDate endDate =
     map (\<lambda>d. d * msPerDay) [dayNumber startDate..dayNumber endDate]"

definition eachMonthOfInterval :: "int \<Rightarrow> int \<Rightarrow> int list" where
  "eachMonthOfInterval startDate endDate =
     map monthStart [monthIndex startDate..monthIndex endDate]"

section \<open>Analytics service\<close>

definition getTotalByType :: "string \<Rightarrow> TransactionType \<Rightarrow> int \<Rightarrow> int \<Rightarrow> Db \<Rightarrow> rat" where
  "getTotalByType userId type startDate endDate db =
     toDouble
       (aggregateAmount
          (\<lambda>t. txUserId t = userId \<and> txType t = type \<and> txStatus t = POSTED
               \<and> startDate \<le> txDate t \<and> txDate t \<le> endDate)
          db)"

definition getTotalBalance :: "string \<Rightarrow> Db \<Rightarrow> rat" where
  "getTotalBalance userId db =
     toDouble
       (sum_list (map accBalance
          (filter (\<lambda>a. accUserId a = userId \<and> accIsActive a) (accounts db))))"

record LastMonthComparison =
  cmpIncome :: jsnum
  cmpExpenses :: jsnum

record DashboardOverview =
  ovTotalBalance :: rat
  ovMonthlyIncome :: rat
  ovMonthlyExpenses :: rat
  ovSavingsRate :: jsnum
  ovNetWorth :: rat
  ovLastMonthComparison :: LastMonthComparison

text \<open>The clock reading \<open>new Date()\<close> is the argument \<open>now\<close>.\<close>

definition getDashboardOverview :: "string \<Rightarrow> int \<Rightarrow> Db \<Rightarrow> DashboardOverview" where
  "getDashboardOverview userId now db =
     (let thisMonthStart = startOfMonth now;
          thisMonthEnd = endOfMonth now;
          lastMonthStart = startOfMonth (subMonths now 1);
          lastMonthEnd = endOfMonth (subMonths now 1);
          thisMonthIncome = getTotalByType userId INCOME thisMonthStart thisMonthEnd db;
          thisMonthExpenses = getTotalByType userId EXPENSE thisMonthStart thisMonthEnd db;
          lastMonthIncome = getTotalByType userId INCOME lastMonthStart lastMonthEnd db;
          lastMonthExpenses = getTotalByType userId EXPENSE lastMonthStart lastMonthEnd db;
          totalBalance = getTotalBalance userId db;
          incomeChange =
            (if 0 < lastMonthIncome
             then js_times
                    (js_div (js_minus thisMonthIncome lastMonthIncome) lastMonthIncome) 100
             else Fin 0);
          expenseChange =
            (if 0 < lastMonthExpenses
             then js_times
                    (js_div (js_minus thisMonthExpenses lastMonthExpenses) lastMonthExpenses)
                    100
             else Fin 0);
          savingsRate =
            (if 0 < thisMonthIncome
             then js_times
                    (js_div (js_minus thisMonthIncome thisMonthExpenses) thisMonthIncome) 100
             else Fin 0)
      in \<lparr>ovTotalBalance = totalBalance,
          ovMonthlyIncome = thisMonthIncome,
          ovMonthlyExpenses = thisMonthExpenses,
          ovSavingsRate = js_max (Fin 0) savingsRate,
          ovNetWorth = totalBalance,
          ovLastMonthComparison = \<lparr>cmpIncome = incomeChange, cmpExpenses = expenseChange\<rparr>\<rparr>)"

record CategorySpending =
  csCategory :: string
  csAmount :: rat
  csCount :: nat
  csPercentage :: jsnum

text \<open>
  A JavaScript \<open>Map\<close> keeps its keys in the order of their first insertion: an
  association list in which \<open>set\<close> replaces the value of a present key in place and
  appends an absent one.
\<close>

fun mapSet :: "'k \<Rightarrow> 'v \<Rightarrow> ('k \<times> 'v) list \<Rightarrow> ('k \<times> 'v) list" where
  "mapSet k v [] = [(k, v)]"
| "mapSet k v ((k', v') # m) = (if k' = k then (k, v) # m else (k', v') # mapSet k v m)"

text \<open>\<open>transaction.category?.name || 'Uncategorized'\<close>, the category being the joined row.\<close>

definition categoryNameOf :: "Db \<Rightarrow> Transaction \<Rightarrow> string" where
  "categoryNameOf db t =
     (case txCategoryId t of
        None \<Rightarrow> ''Uncategorized''
      | Some cid \<Rightarrow>
          (case find (\<lambda>c. catId c = cid) (categories db) of
             None \<Rightarrow> ''Uncategorized''
           | Some c \<Rightarrow> if catName c = [] then ''Uncategorized'' else catName c))"

fun groupByCategory ::
  "Db \<Rightarrow> Transaction list \<Rightarrow> (string \<times> rat \<times> nat) list \<times> rat
     \<Rightarrow> (string \<times> rat \<times> nat) list \<times> rat" where
  "groupByCategory db [] (categoryMap, total') = (categoryMap, total')"
| "groupByCategory db (transaction # rest) (categoryMap, total') =
     (let categoryName = categoryNameOf db transaction;
          amount = toDouble (txAmount transaction);
          existing = (case map_of categoryMap categoryName of
                        None \<Rightarrow> (0, 0)
                      | Some e \<Rightarrow> e)
      in groupByCategory db rest
           (mapSet categoryName (js_plus (fst existing) amount, snd existing + 1) categoryMap,
            js_plus total' amount))"

text \<open>
  \<open>result.sort((a, b) => b.amount - a.amount)\<close> is a stable sort by descending amount,
  which is the stable insertion sort on the negated amount.
\<close>

definition getSpendingByCategory :: "string \<Rightarrow> int \<Rightarrow> int \<Rightarrow> Db \<Rightarrow> CategorySpending list" where
  "getSpendingByCategory userId startDate endDate db =
     (let transactions =
            filter
              (\<lambda>t. txUserId t = userId \<and> txType t = EXPENSE \<and> txStatus t = POSTED
                   \<and> startDate \<le> txDate t \<and> txDate t \<le> endDate)
              (transactions db);
          grouped = groupByCategory db transactions ([], 0);
          categoryMap = fst grouped;
          total = snd grouped;
          result =
            map (\<lambda>(category, data).
                   \<lparr>csCategory = category,
                    csAmount = fst data,
                    csCount = snd data,
                    csPercentage =
                      (if 0 < total then js_times (js_div (fst data) total) 100 else Fin 0)\<rparr>)
              categoryMap
      in sort_key (\<lambda>r. - csAmount r) result)"

datatype TrendPeriod = Week | Month | Year

text \<open>
  A point of the trend. Its label \<open>format(interval, ...)\<close> is represented by the
  interval's instant itself.
\<close>

record TrendPoint =
  tpDate :: int
  tpIncome :: rat
  tpExpenses :: rat
  tpNet :: rat

definition getSpendingTrends :: "string \<Rightarrow> TrendPeriod \<Rightarrow> int \<Rightarrow> Db \<Rightarrow> TrendPoint list" where
  "getSpendingTrends userId period now db =
     (let (startDate, endDate, intervals) =
            (case period of
               Week \<Rightarrow>
                 (startOfWeek now, endOfWeek now,
                  eachDayOfInterval (startOfWeek now) (endOfWeek now))
             | Month \<Rightarrow>
                 (startOfMonth now, endOfMonth now,
                  eachDayOfInterval (startOfMonth now) (endOfMonth now))
             | Year \<Rightarrow>
                 (startOfYear now, endOfYear now,
                  eachMonthOfInterval (startOfYear now) (endOfYear now)));
          transactions =
            sort_key txDate
              (filter
                 (\<lambda>t. txUserId t = userId \<and> txStatus t = POSTED
                      \<and> startDate \<le> txDate t \<and> txDate t \<le> endDate)
                 (transactions db))
      in map (\<lambda>interval.
                (let intervalStart = (if period = Year then startOfMonth interval else interval);
                     intervalEnd = (if period = Year then endOfMonth interval else interval);
                     intervalTransactions =
                       filter (\<lambda>t. intervalStart \<le> txDate t \<and> txDate t \<le> intervalEnd)
                         transactions;
                     income =
                       foldl (\<lambda>sum t. js_plus sum (toDouble (txAmount t))) 0
                         (filter (\<lambda>t. txType t = INCOME) intervalTransactions);
                     expenses =
                       foldl (\<lambda>sum t. js_plus sum (toDouble (txAmount t))) 0
                         (filter (\<lambda>t. txType t = EXPENSE) intervalTransactions)
                 in \<lparr>tpDate = interval, tpIncome = income, tpExpenses = expenses,
                     tpNet = js_minus income expenses\<rparr>))
           intervals)"

record MonthlySummary =
  msMonth :: int
  msIncome :: rat
  msExpenses :: rat
  msNet :: rat
  msSavingsRate :: jsnum
  msTransactionCount :: nat
  msCategoryBreakdown :: "CategorySpending list"
  msTopCategories :: "CategorySpending list"

definition getMonthlySummary :: "string \<Rightarrow> int \<Rightarrow> Db \<Rightarrow> MonthlySummary" where
  "getMonthlySummary userId month db =
     (let monthStart = startOfMonth month;
          monthEnd = endOfMonth month;
          income = getTotalByType userId INCOME monthStart monthEnd db;
          expenses = getTotalByType userId EXPENSE monthStart monthEnd db;
          categoryBreakdown = getSpendingByCategory userId monthStart monthEnd db;
          transactionCount =
            length (filter
              (\<lambda>t. txUserId t = userId \<and> txStatus t = POSTED
                   \<and> monthStart \<le> txDate t \<and> txDate t \<le> monthEnd)
              (transactions db))
      in \<lparr>msMonth = month,
          msIncome = income,
          msExpenses = expenses,
          msNet = js_minus income expenses,
          msSavingsRate =
            (if 0 < income then js_times (js_div (js_minus income expenses) income) 100
             else Fin 0),
          msTransactionCount = transactionCount,
          msCategoryBreakdown = categoryBreakdown,
          msTopCategories = take 5 categoryBreakdown\<rparr>)"

record YearToDateSummary =
  ytdYear :: int
  ytdTotalIncome :: rat
  ytdTotalExpenses :: rat
  ytdNet :: rat
  ytdAverageMonthlyIncome :: jsnum
  ytdAverageMonthlyExpenses :: jsnum
  ytdMonthlySummaries :: "MonthlySummary list"

definition getYearToDateSummary :: "string \<Rightarrow> int \<Rightarrow> Db \<Rightarrow> YearToDateSummary" where
  "getYearToDateSummary userId now db =
     (let yearStart = startOfYear now;
          yearEnd = now;
          months = eachMonthOfInterval yearStart yearEnd;
          monthlySummaries = map (\<lambda>month. getMonthlySummary userId month db) months;
          totalIncome = foldl (\<lambda>sum m. js_plus sum (msIncome m)) 0 monthlySummaries;
          totalExpenses = foldl (\<lambda>sum m. js_plus sum (msExpenses m)) 0 monthlySummaries
      in \<lparr>ytdYear = yearOf now,
          ytdTotalIncome = totalIncome,
          ytdTotalExpenses = totalExpenses,
          ytdNet = js_minus totalIncome totalExpenses,
          ytdAverageMonthlyIncome = js_div totalIncome (of_nat (length months)),
          ytdAverageMonthlyExpenses = js_div totalExpenses (of_nat (length months)),
          ytdMonthlySummaries = monthlySummaries\<rparr>)"

section \<open>Reference definitions\<close>

text \<open>
  The balance of an account as the data model describes it: over the posted transactions
  of the account, income counts positively, expenses negatively, and transfers not at all.
\<close>

definition signedAmount :: "Transaction \<Rightarrow> rat" where
  "signedAmount t =
     (case txType t of INCOME \<Rightarrow> txAmount t | EXPENSE \<Rightarrow> - txAmount t | TRANSFER \<Rightarrow> 0)"

definition postedLedgerBalance :: "string \<Rightarrow> Transaction list \<Rightarrow> rat" where
  "postedLedgerBalance accountId ts =
     sum_list (map signedAmount
       (filter (\<lambda>t. txAccountId t = accountId \<and> txStatus t = POSTED) ts))"

definition postedTotal :: "TransactionType \<Rightarrow> string \<Rightarrow> Transaction list \<Rightarrow> rat" where
  "postedTotal ty accountId ts =
     sum_list (map txAmount
       (filter (\<lambda>t. txAccountId t = accountId \<and> txType t = ty \<and> txStatus t = POSTED) ts))"

text \<open>
  The stored balance of an account is up to date when the account exists and every row
  with its id carries the balance that the posted transactions now in the store give.
\<close>

definition balanceRecalculated :: "string \<Rightarrow> Db \<Rightarrow> bool" where
  "balanceRecalculated accountId db =
     ((\<exists>a\<in>set (accounts db). accId a = accountId)
      \<and> (\<forall>a\<in>set (accounts db). accId a = accountId \<longrightarrow>
             accBalance a = postedLedgerBalance accountId (transactions db)))"




text \<open>
  The expenses that \<open>getSpendingByCategory\<close> matches, and their total as its loop adds
  it up: the doubles of the amounts, added one after the other from 0.
\<close>

definition matchedExpenses :: "string \<Rightarrow> int \<Rightarrow> int \<Rightarrow> Db \<Rightarrow> Transaction list" where
  "matchedExpenses userId startDate endDate db =
     filter
       (\<lambda>t. txUserId t = userId \<and> txType t = EXPENSE \<and> txStatus t = POSTED
            \<and> startDate \<le> txDate t \<and> txDate t \<le> endDate)
       (transactions db)"

definition matchedExpenseTotal :: "string \<Rightarrow> int \<Rightarrow> int \<Rightarrow> Db \<Rightarrow> rat" where
  "matchedExpenseTotal userId startDate endDate db =
     foldl (\<lambda>total' t. js_plus total' (toDouble (txAmount t))) 0
       (matchedExpenses userId startDate endDate db)"

section \<open>Sample stores\<close>


text \<open>
  Two accounts of one user; the first holds an income of 100 and an expense of 30 and its
  stored balance of 70 agrees with them. \<open>ledgerDbRetyped\<close> is the same store with the
  income turned into an expense and the stored balances left as they were.
\<close>

definition ledgerDb :: Db where
  "ledgerDb =
     \<lparr>accounts =
        [\<lparr>accId = ''a1'', accUserId = ''u1'', accBalance = 70, accIsActive = True\<rparr>,
         \<lparr>accId = ''a2'', accUserId = ''u1'', accBalance = 0, accIsActive = True\<rparr>],
      categories = [],
      transactions =
        [\<lparr>txId = ''t1'', txUserId = ''u1'', txAccountId = ''a1'', txAmount = 100,
          txType = INCOME, txDescription = ''Refund'', txCategoryId = None, txDate = 0,
          txStatus = POSTED\<rparr>,
         \<lparr>txId = ''t2'', txUserId = ''u1'', txAccountId = ''a1'', txAmount = 30,
          txType = EXPENSE, txDescription = ''Lunch'', txCategoryId = None, txDate = 0,
          txStatus = POSTED\<rparr>],
      budgets = []\<rparr>"

definition bonusData :: CreateTransactionData where
  "bonusData =
     \<lparr>cAccountId = ''a1'', cAmount = 250, cType = INCOME, cDescription = ''Bonus'',
      cCategoryId = None, cDate = 0\<rparr>"

definition moveToA2 :: UpdateTransactionData where
  "moveToA2 =
     \<lparr>uAccountId = Some ''a2'', uAmount = None, uType = None, uDescription = None,
      uCategoryId = None, uDate = None\<rparr>"

definition typeOnlyUpdate :: UpdateTransactionData where
  "typeOnlyUpdate =
     \<lparr>uAccountId = None, uAmount = None, uType = Some EXPENSE, uDescription = None,
      uCategoryId = None, uDate = None\<rparr>"

definition retypedTransaction :: Transaction where
  "retypedTransaction =
     \<lparr>txId = ''t1'', txUserId = ''u1'', txAccountId = ''a1'', txAmount = 100,
      txType = EXPENSE, txDescription = ''Refund'', txCategoryId = None, txDate = 0,
      txStatus = POSTED\<rparr>"

definition ledgerDbRetyped :: Db where
  "ledgerDbRetyped =
     \<lparr>accounts =
        [\<lparr>accId = ''a1'', accUserId = ''u1'', accBalance = 70, accIsActive = True\<rparr>,
         \<lparr>accId = ''a2'', accUserId = ''u1'', accBalance = 0, accIsActive = True\<rparr>],
      categories = [],
      transactions =
        [retypedTransaction,
         \<lparr>txId = ''t2'', txUserId = ''u1'', txAccountId = ''a1'', txAmount = 30,
          txType = EXPENSE, txDescription = ''Lunch'', txCategoryId = None, txDate = 0,
          txStatus = POSTED\<rparr>],
      budgets = []\<rparr>"

text \<open>
  A budget of 50.01 with a single expense of 3.34.
\<close>

definition travelBudget :: Budget where
  "travelBudget =
     \<lparr>bId = ''b3'', bUserId = ''u1'', bName = ''Travel'', bAmount = 5001 / 100,
      bPeriod = MONTHLY, bStartDate = 0, bEndDate = None, bCategoryId = None,
      bAlertEnabled = False, bAlertThreshold = None, bCreatedAt = 1\<rparr>"

definition travelDb :: Db where
  "travelDb =
     \<lparr>accounts = [\<lparr>accId = ''a1'', accUserId = ''u1'', accBalance = 0, accIsActive = True\<rparr>],
      categories = [],
      transactions =
        [\<lparr>txId = ''t1'', txUserId = ''u1'', txAccountId = ''a1'', txAmount = 334 / 100,
          txType = EXPENSE, txDescription = ''Bus'', txCategoryId = None,
          txDate = 5, txStatus = POSTED\<rparr>],
      budgets = [travelBudget]\<rparr>"

text \<open>
  Seven budgets, each scoped to a category of its own with one expense. Rent (1000, no
  threshold) has 1200.50 spent. Books (100, threshold 50) has 60 spent. Fuel (500,
  threshold 57) has 285 spent. Dining (300, threshold 80) has 260 spent. Gifts (200,
  threshold 90) has 170 spent. Groceries (500, no threshold) has 410 spent. Hobbies (10, no
  threshold, alerts disabled) has 20 spent.
\<close>

definition alertBudgetRow ::
  "string \<Rightarrow> string \<Rightarrow> rat \<Rightarrow> string \<Rightarrow> bool \<Rightarrow> rat option \<Rightarrow> int \<Rightarrow> Budget" where
  "alertBudgetRow budgetId name amount categoryId enabled threshold createdAt =
     \<lparr>bId = budgetId, bUserId = ''u1'', bName = name, bAmount = amount,
      bPeriod = MONTHLY, bStartDate = 0, bEndDate = None, bCategoryId = Some categoryId,
      bAlertEnabled = enabled, bAlertThreshold = threshold, bCreatedAt = createdAt\<rparr>"

definition alertExpenseRow :: "string \<Rightarrow> rat \<Rightarrow> string \<Rightarrow> Transaction" where
  "alertExpenseRow transactionId amount categoryId =
     \<lparr>txId = transactionId, txUserId = ''u1'', txAccountId = ''a1'', txAmount = amount,
      txType = EXPENSE, txDescription = ''Payment'', txCategoryId = Some categoryId,
      txDate = 10, txStatus = POSTED\<rparr>"









text \<open>
  A budget of 500 for groceries with 45.99 spent.
\<close>

definition marketBudget :: Budget where
  "marketBudget = alertBudgetRow ''b8'' ''Market'' 500 ''c8'' True None 1"

definition marketDb :: Db where
  "marketDb =
     \<lparr>accounts = [\<lparr>accId = ''a1'', accUserId = ''u1'', accBalance = 0, accIsActive = True\<rparr>],
      categories = [],
      transactions = [alertExpenseRow ''t1'' (4599 / 100) ''c8''],
      budgets = [marketBudget]\<rparr>"

text \<open>
  Three expenses of 1 each, in three categories.
\<close>

definition thirdsDb :: Db where
  "thirdsDb =
     \<lparr>accounts = [\<lparr>accId = ''a1'', accUserId = ''u1'', accBalance = 0, accIsActive = True\<rparr>],
      categories =
        [\<lparr>catId = ''c1'', catName = ''Food'', catUserId = None, catIsSystem = True\<rparr>,
         \<lparr>catId = ''c2'', catName = ''Fuel'', catUserId = None, catIsSystem = True\<rparr>],
      transactions =
        [\<lparr>txId = ''t1'', txUserId = ''u1'', txAccountId = ''a1'', txAmount = 1,
          txType = EXPENSE, txDescription = ''Bread'', txCategoryId = Some ''c1'',
          txDate = 5, txStatus = POSTED\<rparr>,
         \<lparr>txId = ''t2'', txUserId = ''u1'', txAccountId = ''a1'', txAmount = 1,
          txType = EXPENSE, txDescription = ''Petrol'', txCategoryId = Some ''c2'',
          txDate = 5, txStatus = POSTED\<rparr>,
         \<lparr>txId = ''t3'', txUserId = ''u1'', txAccountId = ''a1'', txAmount = 1,
          txType = EXPENSE, txDescription = ''Stamp'', txCategoryId = None,
          txDate = 5, txStatus = POSTED\<rparr>],
      budgets = []\<rparr>"

text \<open>
  A store with a single posted expense of amount 0, and a store whose only budget has
  amount 0 while 50 was spent.
\<close>

definition zeroExpenseDb :: Db where
  "zeroExpenseDb =
     \<lparr>accounts = [\<lparr>accId = ''a1'', accUserId = ''u1'', accBalance = 0, accIsActive = True\<rparr>],
      categories = [],
      transactions =
        [\<lparr>txId = ''t1'', txUserId = ''u1'', txAccountId = ''a1'', txAmount = 0,
          txType = EXPENSE, txDescription = ''Voucher'', txCategoryId = None,
          txDate = 5, txStatus = POSTED\<rparr>],
      budgets = []\<rparr>"

definition zeroBudget :: Budget where
  "zeroBudget =
     \<lparr>bId = ''b0'', bUserId = ''u1'', bName = ''Everything'', bAmount = 0,
      bPeriod = MONTHLY, bStartDate = 0, bEndDate = None, bCategoryId = None,
      bAlertEnabled = True, bAlertThreshold = None, bCreatedAt = 1\<rparr>"

definition zeroBudgetDb :: Db where
  "zeroBudgetDb =
     \<lparr>accounts = [\<lparr>accId = ''a1'', accUserId = ''u1'', accBalance = 0, accIsActive = True\<rparr>],
      categories = [],
      transactions =
        [\<lparr>txId = ''t1'', txUserId = ''u1'', txAccountId = ''a1'', txAmount = 50,
          txType = EXPENSE, txDescription = ''Fuel'', txCategoryId = None,
          txDate = 5, txStatus = POSTED\<rparr>],
      budgets = [zeroBudget]\<rparr>"

text \<open>
  January 2024 of one user: an income of 100 dated Monday 15 January at 10:30, and two
  expenses of 150 and 50 dated 15 January at 00:00. \<open>midJanuary\<close> is
  2024-01-15T10:30:00Z and \<open>midFebruary\<close> is 2024-02-15T10:30:00Z.
\<close>

definition midJanuary :: int where
  "midJanuary = 1705314600000"

definition midFebruary :: int where
  "midFebruary = 1707993000000"

definition analyticsDb :: Db where
  "analyticsDb =
     \<lparr>accounts = [\<lparr>accId = ''a1'', accUserId = ''u1'', accBalance = 0, accIsActive = True\<rparr>],
      categories = [\<lparr>catId = ''c1'', catName = ''Food'', catUserId = None, catIsSystem = True\<rparr>],
      transactions =
        [\<lparr>txId = ''t1'', txUserId = ''u1'', txAccountId = ''a1'', txAmount = 100,
          txType = INCOME, txDescription = ''Refund'', txCategoryId = None,
          txDate = 1705314600000, txStatus = POSTED\<rparr>,
         \<lparr>txId = ''t2'', txUserId = ''u1'', txAccountId = ''a1'', txAmount = 150,
          txType = EXPENSE, txDescription = ''Groceries'', txCategoryId = Some ''c1'',
          txDate = 1705276800000, txStatus = POSTED\<rparr>,
         \<lparr>txId = ''t3'', txUserId = ''u1'', txAccountId = ''a1'', txAmount = 50,
          txType = EXPENSE, txDescription = ''Parking'', txCategoryId = None,
          txDate = 1705276800000, txStatus = POSTED\<rparr>],
      budgets = []\<rparr>"

section \<open>Rounding to doubles\<close>

lemma bitlen_pos_bounds:
  fixes n :: int
  assumes "1 \<le> n"
  shows "1 \<le> bitlen n"
    and "(2::rat) powi (bitlen n - 1) \<le> of_int n"
    and "of_int n + 1 \<le> (2::rat) powi (bitlen n)"
proof -
  from assms have pos: "0 < n" by simp
  from bitlen_bounds[OF pos]
  have lo: "2 ^ nat (bitlen n - 1) \<le> n" and hi: "n < 2 ^ nat (bitlen n)" by simp_all
  show b1: "1 \<le> bitlen n"
  proof (rule ccontr)
    assume "\<not> 1 \<le> bitlen n"
    then have "nat (bitlen n) = 0" by simp
    with hi have "n < 1" by simp
    with assms show False by simp
  qed
  have "(2::rat) powi (bitlen n - 1) = 2 ^ nat (bitlen n - 1)"
    using b1 by (simp add: power_int_def)
  also have "\<dots> = of_int (2 ^ nat (bitlen n - 1))" by simp
  also have "\<dots> \<le> of_int n" using lo by (simp only: of_int_le_iff)
  finally show "(2::rat) powi (bitlen n - 1) \<le> of_int n" .
  from hi have "n + 1 \<le> 2 ^ nat (bitlen n)" by simp
  then have "(of_int (n + 1) :: rat) \<le> of_int (2 ^ nat (bitlen n))"
    by (simp only: of_int_le_iff)
  also have "\<dots> = 2 powi (bitlen n)" using b1 by (simp add: power_int_def)
  finally show "of_int n + 1 \<le> (2::rat) powi (bitlen n)" by simp
qed

lemma binaryExponent_bounds:
  assumes "0 < a"
  shows "2 powi (binaryExponent a) \<le> a" and "a < 2 powi (binaryExponent a + 1)"
proof -
  have "2 powi (binaryExponent a) \<le> a \<and> a < 2 powi (binaryExponent a + 1)"
  proof (cases "1 \<le> a")
    case True
    then have n: "1 \<le> \<lfloor>a\<rfloor>" by simp
    note b = bitlen_pos_bounds[OF n]
    have e: "binaryExponent a = bitlen \<lfloor>a\<rfloor> - 1" using True by (simp add: binaryExponent_def)
    have "2 powi (bitlen \<lfloor>a\<rfloor> - 1) \<le> a"
      using b(2) of_int_floor_le[of a] by linarith
    moreover have "a < 2 powi (bitlen \<lfloor>a\<rfloor>)"
      using b(3) floor_correct[of a] by linarith
    ultimately show ?thesis by (simp add: e)
  next
    case False
    then have a1: "a < 1" by simp
    let ?y = "1 / a"
    have y1: "1 < ?y" using assms a1 by simp
    then have c: "1 \<le> \<lceil>?y\<rceil> - 1" by (simp add: less_ceiling_iff)
    note b = bitlen_pos_bounds[OF c]
    let ?m = "bitlen (\<lceil>?y\<rceil> - 1)"
    have e: "binaryExponent a = - ?m" using False by (simp add: binaryExponent_def)
    have p: "0 < (2::rat) powi ?m" "0 < (2::rat) powi (?m - 1)"
      by simp_all
    have "of_int \<lceil>?y\<rceil> \<le> (2::rat) powi ?m" using b(3) by simp
    then have "?y \<le> 2 powi ?m"
      using le_of_int_ceiling[of ?y] by linarith
    then have "1 \<le> a * 2 powi ?m"
      using assms by (simp add: field_simps)
    then have "1 / 2 powi ?m \<le> a"
      using p(1) by (simp add: pos_divide_le_eq)
    then have lo: "2 powi (- ?m) \<le> a"
      by (simp only: power_int_minus_divide)
    have "(2::rat) powi (?m - 1) \<le> of_int \<lceil>?y\<rceil> - 1" using b(2) by simp
    then have "2 powi (?m - 1) < ?y"
      using ceiling_correct[of ?y] by linarith
    then have "a * 2 powi (?m - 1) < 1"
      using assms by (simp add: field_simps)
    then have "a < 1 / 2 powi (?m - 1)"
      using p(2) by (simp add: pos_less_divide_eq)
    also have "1 / 2 powi (?m - 1) = (2::rat) powi (- (?m - 1))"
      by (rule power_int_minus_divide[symmetric])
    finally have hi: "a < 2 powi (- ?m + 1)" by simp
    from lo hi show ?thesis by (simp add: e)
  qed
  then show "2 powi (binaryExponent a) \<le> a" and "a < 2 powi (binaryExponent a + 1)"
    by simp_all
qed

lemma roundHalfEven_error: "\<bar>of_int (roundHalfEven y) - y\<bar> \<le> 1 / 2"
proof -
  have "of_int \<lfloor>y\<rfloor> \<le> y" "y < of_int \<lfloor>y\<rfloor> + 1" by linarith+
  then show ?thesis
    by (auto simp: roundHalfEven_def Let_def abs_le_iff)
qed

lemma toDouble_error: "\<bar>toDouble x - x\<bar> \<le> unitRoundoff * \<bar>x\<bar>"
proof (cases "x = 0")
  case True
  then show ?thesis by (simp add: toDouble_def)
next
  case False
  let ?e = "binaryExponent \<bar>x\<bar>"
  let ?q = "(2::rat) powi (?e - 52)"
  have q: "0 < ?q" by simp
  have fl: "toDouble x = of_int (roundHalfEven (x / ?q)) * ?q"
    using False by (simp add: toDouble_def Let_def)
  have "toDouble x - x = (of_int (roundHalfEven (x / ?q)) - x / ?q) * ?q"
    using q by (simp add: fl field_simps)
  then have "\<bar>toDouble x - x\<bar> = \<bar>of_int (roundHalfEven (x / ?q)) - x / ?q\<bar> * ?q"
    using q by (simp add: abs_mult)
  also have "\<dots> \<le> 1 / 2 * ?q"
    using roundHalfEven_error[of "x / ?q"] q by (intro mult_right_mono) simp_all
  also have "1 / 2 * ?q = unitRoundoff * 2 powi ?e"
  proof -
    have "(2::rat) powi (?e - 52) = 2 powi ?e / 2 powi 52"
      by (rule power_int_diff) simp
    then show ?thesis by (simp add: unitRoundoff_def)
  qed
  also have "\<dots> \<le> unitRoundoff * \<bar>x\<bar>"
    using binaryExponent_bounds(1)[of "\<bar>x\<bar>"] False
    by (intro mult_left_mono) (simp_all add: unitRoundoff_def)
  finally show ?thesis .
qed

lemma toDouble_nonneg_bounds:
  assumes "0 \<le> x"
  shows "(1 - unitRoundoff) * x \<le> toDouble x" and "toDouble x \<le> (1 + unitRoundoff) * x"
  using toDouble_error[of x] assms by (simp_all add: abs_le_iff algebra_simps)

lemma toDouble_nonneg: "0 \<le> x \<Longrightarrow> 0 \<le> toDouble x"
proof -
  assume x: "0 \<le> x"
  have "0 \<le> (1 - unitRoundoff) * x"
    using x by (intro mult_nonneg_nonneg) (simp_all add: unitRoundoff_def)
  with toDouble_nonneg_bounds(1)[OF x] show ?thesis by linarith
qed

lemma unitRoundoff_range: "0 < unitRoundoff" "unitRoundoff < 1" "0 \<le> unitRoundoff"
  "0 < 1 - unitRoundoff" "0 \<le> 1 - unitRoundoff" "1 - unitRoundoff \<le> 1"
  "1 \<le> 1 + unitRoundoff" "0 \<le> 1 + unitRoundoff" "0 < 1 + unitRoundoff"
  by (simp_all add: unitRoundoff_def)

lemma toDouble_pos: "0 < x \<Longrightarrow> 0 < toDouble x"
proof -
  assume x: "0 < x"
  have "0 < (1 - unitRoundoff) * x"
    using x unitRoundoff_range(4) by (rule mult_pos_pos[rotated])
  with toDouble_nonneg_bounds(1)[of x] x show ?thesis by linarith
qed

lemma js_plus_bounds:
  assumes "0 \<le> x" and "0 \<le> y"
  shows "(1 - unitRoundoff) * (x + y) \<le> js_plus x y"
    and "js_plus x y \<le> (1 + unitRoundoff) * (x + y)"
    and "0 \<le> js_plus x y"
  using assms toDouble_nonneg_bounds[of "x + y"] toDouble_nonneg[of "x + y"]
  by (simp_all add: js_plus_def)

section \<open>Balance recalculation\<close>

lemma postedLedgerBalance_split:
  "postedLedgerBalance aid ts = postedTotal INCOME aid ts - postedTotal EXPENSE aid ts"
  by (induction ts)
     (auto simp: postedLedgerBalance_def postedTotal_def signedAmount_def
           split: TransactionType.splits)

lemma find_Some_accId:
  "find (\<lambda>a. accId a = aid) xs \<noteq> None \<longleftrightarrow> (\<exists>a\<in>set xs. accId a = aid)"
  by (induction xs) auto

lemma updateAccountBalance_Inr:
  assumes "updateAccountBalance aid db = Inr db'"
  shows "transactions db' = transactions db"
    and "categories db' = categories db"
    and "budgets db' = budgets db"
    and "accounts db' =
           map (\<lambda>a. if accId a = aid
                     then a\<lparr>accBalance := postedLedgerBalance aid (transactions db)\<rparr> else a)
             (accounts db)"
    and "\<exists>a\<in>set (accounts db). accId a = aid"
  using assms find_Some_accId[of aid "accounts db"]
  by (auto simp: updateAccountBalance_def accountUpdateBalance_def Let_def aggregateAmount_def
        postedLedgerBalance_split postedTotal_def split: option.splits)

lemma setBalance_all:
  "list_all (\<lambda>a. accId a = aid \<longrightarrow> accBalance a = b)
     (map (\<lambda>a. if accId a = aid then a\<lparr>accBalance := b\<rparr> else a) xs)"
  by (induction xs) simp_all

lemma setBalance_balance:
  "a \<in> set (map (\<lambda>a. if accId a = aid then a\<lparr>accBalance := b\<rparr> else a) xs)
   \<Longrightarrow> accId a = aid \<Longrightarrow> accBalance a = b"
  using setBalance_all[of aid b xs] unfolding list_all_iff by blast

lemma setBalance_ids_set:
  "accId ` set (map (\<lambda>a. if accId a = aid then a\<lparr>accBalance := b\<rparr> else a) xs) = accId ` set xs"
  by (induction xs) simp_all




section \<open>Recalculation after transaction mutations\<close>

lemma updateAccountBalance_recalculated:
  assumes r: "updateAccountBalance aid db = Inr db'"
  shows "balanceRecalculated aid db'"
proof -
  note f = updateAccountBalance_Inr[OF r]
  have "accId ` set (accounts db') = accId ` set (accounts db)"
    unfolding f(4) by (simp only: setBalance_ids_set)
  moreover have "aid \<in> accId ` set (accounts db)" using f(5) by force
  ultimately have "aid \<in> accId ` set (accounts db')" by simp
  then have ex: "\<exists>a\<in>set (accounts db'). accId a = aid" by force
  have "\<forall>a\<in>set (accounts db'). accId a = aid \<longrightarrow>
          accBalance a = postedLedgerBalance aid (transactions db')"
  proof (intro ballI impI)
    fix a assume "a \<in> set (accounts db')" "accId a = aid"
    then have "accBalance a = postedLedgerBalance aid (transactions db)"
      unfolding f(4) by (rule setBalance_balance)
    then show "accBalance a = postedLedgerBalance aid (transactions db')"
      by (simp add: f(1))
  qed
  with ex show ?thesis unfolding balanceRecalculated_def by blast
qed

lemma setBalance_other:
  "other \<noteq> aid \<Longrightarrow>
   filter (\<lambda>a. accId a = other)
     (map (\<lambda>a. if accId a = aid then a\<lparr>accBalance := b\<rparr> else a) xs)
   = filter (\<lambda>a. accId a = other) xs"
  by (induction xs) simp_all

lemma balanceRecalculated_filter:
  "balanceRecalculated aid db \<longleftrightarrow>
     filter (\<lambda>a. accId a = aid) (accounts db) \<noteq> []
     \<and> list_all (\<lambda>a. accBalance a = postedLedgerBalance aid (transactions db))
          (filter (\<lambda>a. accId a = aid) (accounts db))"
  unfolding balanceRecalculated_def list_all_iff filter_empty_conv by auto

lemma updateAccountBalance_keeps:
  assumes r: "updateAccountBalance aid db = Inr db'"
    and o: "balanceRecalculated other db"
  shows "balanceRecalculated other db'"
proof (cases "other = aid")
  case True
  then show ?thesis using updateAccountBalance_recalculated[OF r] by simp
next
  case False
  note f = updateAccountBalance_Inr[OF r]
  have "filter (\<lambda>a. accId a = other) (accounts db')
        = filter (\<lambda>a. accId a = other) (accounts db)"
    unfolding f(4) by (rule setBalance_other[OF False])
  then show ?thesis using o by (simp add: balanceRecalculated_filter f(1))
qed

lemma createTransaction_recalculates:
  assumes "createTransaction uid data nid db = Inr (t, db')"
  shows "balanceRecalculated (cAccountId data) db'" and "txAccountId t = cAccountId data"
  using assms
  by (auto simp: createTransaction_def Let_def newTransaction_def
        split: option.splits if_splits sum.splits
        dest: updateAccountBalance_recalculated)

lemma deleteTransaction_recalculates:
  assumes "deleteTransaction uid tid db = Inr db'"
  shows "\<exists>t. findTransaction uid tid db = Some t \<and> balanceRecalculated (txAccountId t) db'"
  using assms
  by (auto simp: deleteTransaction_def Let_def split: option.splits
        dest: updateAccountBalance_recalculated)

lemma updateTransaction_recalculates:
  assumes r: "updateTransaction uid tid upd db = Inr (t', db')"
    and g: "uAmount upd \<noteq> None \<or> truthy (uAccountId upd)"
  shows "\<exists>old. findTransaction uid tid db = Some old
           \<and> balanceRecalculated (txAccountId t') db'
           \<and> (truthy (uAccountId upd) \<longrightarrow> txAccountId t' = the (uAccountId upd))
           \<and> (truthy (uAccountId upd) \<and> the (uAccountId upd) \<noteq> txAccountId old
                \<longrightarrow> balanceRecalculated (txAccountId old) db')"
proof -
  from r obtain old where old: "findTransaction uid tid db = Some old"
    by (auto simp: updateTransaction_def split: option.splits)
  from r old obtain row where row: "find (\<lambda>t. txId t = tid) (transactions db) = Some row"
    by (auto simp: updateTransaction_def split: option.splits if_splits)
  define db1 where "db1 = db\<lparr>transactions :=
       updateFirst (\<lambda>t. txId t = tid) (applyUpdate upd) (transactions db)\<rparr>"
  define moved where "moved \<longleftrightarrow> truthy (uAccountId upd) \<and> the (uAccountId upd) \<noteq> txAccountId old"
  from r old row g obtain db2 where
    t': "t' = applyUpdate upd row"
    and s1: "updateAccountBalance (txAccountId (applyUpdate upd row)) db1 = Inr db2"
    and s2: "if moved then updateAccountBalance (txAccountId old) db2 = Inr db'
             else db' = db2"
    unfolding moved_def db1_def
    by (auto simp: updateTransaction_def Let_def split: option.splits if_splits sum.splits)
  have new2: "balanceRecalculated (txAccountId t') db2"
    using updateAccountBalance_recalculated[OF s1] t' by simp
  have new: "balanceRecalculated (txAccountId t') db'"
  proof (cases moved)
    case True
    with s2 have "updateAccountBalance (txAccountId old) db2 = Inr db'" by simp
    from updateAccountBalance_keeps[OF this new2] show ?thesis .
  next
    case False
    with s2 new2 show ?thesis by simp
  qed
  have acc: "truthy (uAccountId upd) \<longrightarrow> txAccountId t' = the (uAccountId upd)"
    unfolding t' by (cases "uAccountId upd") (simp_all add: applyUpdate_def)
  have oldr: "moved \<longrightarrow> balanceRecalculated (txAccountId old) db'"
  proof
    assume moved
    with s2 have "updateAccountBalance (txAccountId old) db2 = Inr db'" by simp
    then show "balanceRecalculated (txAccountId old) db'"
      by (rule updateAccountBalance_recalculated)
  qed
  from old new acc oldr show ?thesis unfolding moved_def by blast
qed

lemmas service_defs =
  createTransaction_def updateTransaction_def deleteTransaction_def
  updateAccountBalance_def accountUpdateBalance_def aggregateAmount_def
  findAccount_def findTransaction_def findCategory_def newTransaction_def applyUpdate_def

text \<open>
  C5, as the code has it. A create recalculates the balance of the account of the new
  transaction, a delete that of the account of the deleted one. An update recalculates
  when it supplies an amount or an account reference: then the balance of the account the
  transaction now belongs to is recalculated, and when the account reference changed, the
  balance of the account it belonged to before as well.
\<close>

theorem transaction_mutations_recalculate:
  "(createTransaction uid data nid db = Inr (t, db') \<longrightarrow>
      txAccountId t = cAccountId data \<and> balanceRecalculated (cAccountId data) db')
   \<and> (deleteTransaction uid tid db = Inr db' \<longrightarrow>
      (\<exists>old. findTransaction uid tid db = Some old
         \<and> balanceRecalculated (txAccountId old) db'))
   \<and> (updateTransaction uid tid upd db = Inr (t, db')
       \<and> (uAmount upd \<noteq> None \<or> truthy (uAccountId upd)) \<longrightarrow>
      (\<exists>old. findTransaction uid tid db = Some old
         \<and> balanceRecalculated (txAccountId t) db'
         \<and> (truthy (uAccountId upd) \<longrightarrow> txAccountId t = the (uAccountId upd))
         \<and> (truthy (uAccountId upd) \<and> the (uAccountId upd) \<noteq> txAccountId old
              \<longrightarrow> balanceRecalculated (txAccountId old) db')))"
  using createTransaction_recalculates[of uid data nid db t db']
    deleteTransaction_recalculates[of uid tid db db']
    updateTransaction_recalculates[of uid tid upd db t db']
  by blast

theorem transaction_mutations_recalculate_witness:
  "(\<exists>t db'. createTransaction ''u1'' bonusData ''t3'' ledgerDb = Inr (t, db')
       \<and> balanceRecalculated ''a1'' db')
   \<and> (\<exists>db'. deleteTransaction ''u1'' ''t2'' ledgerDb = Inr db'
       \<and> balanceRecalculated ''a1'' db')
   \<and> (\<exists>t db'. updateTransaction ''u1'' ''t1'' moveToA2 ledgerDb = Inr (t, db')
       \<and> balanceRecalculated ''a2'' db' \<and> balanceRecalculated ''a1'' db')"
proof -
  obtain t1 d1 where c: "createTransaction ''u1'' bonusData ''t3'' ledgerDb = Inr (t1, d1)"
    by (simp add: service_defs ledgerDb_def bonusData_def Let_def)
  obtain d2 where d: "deleteTransaction ''u1'' ''t2'' ledgerDb = Inr d2"
    by (simp add: service_defs ledgerDb_def Let_def)
  obtain t3 d3 where u: "updateTransaction ''u1'' ''t1'' moveToA2 ledgerDb = Inr (t3, d3)"
    by (simp add: service_defs ledgerDb_def moveToA2_def Let_def)
  have old1: "findTransaction ''u1'' ''t2'' ledgerDb
      = Some \<lparr>txId = ''t2'', txUserId = ''u1'', txAccountId = ''a1'', txAmount = 30,
          txType = EXPENSE, txDescription = ''Lunch'', txCategoryId = None, txDate = 0,
          txStatus = POSTED\<rparr>"
    by (simp add: findTransaction_def ledgerDb_def)
  have old2: "findTransaction ''u1'' ''t1'' ledgerDb
      = Some \<lparr>txId = ''t1'', txUserId = ''u1'', txAccountId = ''a1'', txAmount = 100,
          txType = INCOME, txDescription = ''Refund'', txCategoryId = None, txDate = 0,
          txStatus = POSTED\<rparr>"
    by (simp add: findTransaction_def ledgerDb_def)
  have "balanceRecalculated ''a1'' d1"
    using transaction_mutations_recalculate[where uid = "''u1''" and data = bonusData
        and nid = "''t3''" and db = ledgerDb and t = t1 and db' = d1, THEN conjunct1] c
    by (simp add: bonusData_def)
  moreover have "balanceRecalculated ''a1'' d2"
    using transaction_mutations_recalculate[where uid = "''u1''" and tid = "''t2''"
        and db = ledgerDb and db' = d2, THEN conjunct2, THEN conjunct1] d old1
    by simp
  moreover have "balanceRecalculated ''a2'' d3 \<and> balanceRecalculated ''a1'' d3"
    using transaction_mutations_recalculate[where uid = "''u1''" and tid = "''t1''"
        and upd = moveToA2 and db = ledgerDb and t = t3 and db' = d3,
        THEN conjunct2, THEN conjunct2] u old2
    by (auto simp: moveToA2_def)
  ultimately show ?thesis using c d u by blast
qed

text \<open>
  An update that supplies neither an amount nor an account reference recalculates
  nothing: after turning the income of 100 into an expense the update returns and the
  stored balance is still 70, where the posted transactions give -130.
\<close>

theorem type_only_update_leaves_balance_stale:
  "updateTransaction ''u1'' ''t1'' typeOnlyUpdate ledgerDb
     = Inr (retypedTransaction, ledgerDbRetyped)
   \<and> balanceRecalculated ''a1'' ledgerDb
   \<and> \<not> balanceRecalculated ''a1'' ledgerDbRetyped"
  by (simp add: service_defs ledgerDb_def typeOnlyUpdate_def retypedTransaction_def
        ledgerDbRetyped_def balanceRecalculated_def postedLedgerBalance_def
        signedAmount_def Let_def)

section \<open>Status of created transactions\<close>





section \<open>Budget progress\<close>

lemma budgetProgress_fields:
  "spent (budgetProgress uid db b) = calculateSpending uid b db"
  "remaining (budgetProgress uid db b)
     = js_minus (toDouble (bAmount b)) (calculateSpending uid b db)"
  "percentageUsed (budgetProgress uid db b)
     = js_times (js_div (calculateSpending uid b db) (toDouble (bAmount b))) 100"
  "isOverBudget (budgetProgress uid db b) = (toDouble (bAmount b) < calculateSpending uid b db)"
  "bAmount (budgetProgress uid db b) = bAmount b"
  "calculateSpending uid (budgetProgress uid db b) db = calculateSpending uid b db"
  "bName (budgetProgress uid db b) = bName b"
  "bAlertEnabled (budgetProgress uid db b) = bAlertEnabled b"
  "bAlertThreshold (budgetProgress uid db b) = bAlertThreshold b"
  by (simp_all add: budgetProgress_def Let_def Budget.defs BudgetWithProgress.defs
        calculateSpending_def)

lemma getBudgets_member:
  "p \<in> set (getBudgets uid period db) \<Longrightarrow> \<exists>b. p = budgetProgress uid db b"
  unfolding getBudgets_def Let_def by (simp only: set_map) blast

lemma getBudget_result:
  "getBudget uid budgetId db = Inr p \<Longrightarrow> \<exists>b. p = budgetProgress uid db b"
  unfolding getBudget_def
  by (cases "find (\<lambda>b. bId b = budgetId \<and> bUserId b = uid) (budgets db)") auto

lemma budgetProgress_claim:
  assumes p: "p = budgetProgress uid db b" and pos: "0 < bAmount p"
  shows "spent p = calculateSpending uid p db
       \<and> remaining p = js_minus (toDouble (bAmount p)) (spent p)
       \<and> \<bar>remaining p + spent p - toDouble (bAmount p)\<bar>
           \<le> unitRoundoff * \<bar>toDouble (bAmount p) - spent p\<bar>
       \<and> percentageUsed p = Fin (toDouble (toDouble (spent p / toDouble (bAmount p)) * 100))
       \<and> isOverBudget p = (toDouble (bAmount p) < spent p)"
proof -
  have a: "0 < toDouble (bAmount p)" using pos by (rule toDouble_pos)
  have r: "remaining p = toDouble (toDouble (bAmount p) - spent p)"
    unfolding p by (simp add: budgetProgress_fields js_minus_def)
  have "remaining p + spent p - toDouble (bAmount p)
        = toDouble (toDouble (bAmount p) - spent p) - (toDouble (bAmount p) - spent p)"
    by (simp add: r)
  then have e: "\<bar>remaining p + spent p - toDouble (bAmount p)\<bar>
           \<le> unitRoundoff * \<bar>toDouble (bAmount p) - spent p\<bar>"
    using toDouble_error[of "toDouble (bAmount p) - spent p"] by simp
  have pc: "percentageUsed p = Fin (toDouble (toDouble (spent p / toDouble (bAmount p)) * 100))"
    using a unfolding p by (simp add: budgetProgress_fields js_div_def)
  show ?thesis
    using e pc r unfolding p by (simp add: budgetProgress_fields js_minus_def)
qed

text \<open>
  C2, as the code has it. Every budget that \<open>getBudgets\<close> lists or \<open>getBudget\<close> returns,
  when its amount is positive, carries as \<open>spent\<close> the value \<open>calculateSpending\<close> computes
  for it. Its \<open>remaining\<close> is the double nearest to \<open>amount - spent\<close>, so that
  \<open>remaining + spent\<close> differs from the amount, read as a double, by no more than
  \<open>2^-53 * |amount - spent|\<close>. Its \<open>percentageUsed\<close> is \<open>spent / amount * 100\<close> as doubles
  compute it, the quotient rounded and then the product, and
  \<open>isOverBudget = (spent > amount)\<close>.
\<close>

theorem budget_progress_derived_fields:
  "(\<forall>p\<in>set (getBudgets uid period db). 0 < bAmount p \<longrightarrow>
       spent p = calculateSpending uid p db
       \<and> remaining p = js_minus (toDouble (bAmount p)) (spent p)
       \<and> \<bar>remaining p + spent p - toDouble (bAmount p)\<bar>
           \<le> unitRoundoff * \<bar>toDouble (bAmount p) - spent p\<bar>
       \<and> percentageUsed p = Fin (toDouble (toDouble (spent p / toDouble (bAmount p)) * 100))
       \<and> isOverBudget p = (toDouble (bAmount p) < spent p))
   \<and> (\<forall>p. getBudget uid budgetId db = Inr p \<and> 0 < bAmount p \<longrightarrow>
       spent p = calculateSpending uid p db
       \<and> remaining p = js_minus (toDouble (bAmount p)) (spent p)
       \<and> \<bar>remaining p + spent p - toDouble (bAmount p)\<bar>
           \<le> unitRoundoff * \<bar>toDouble (bAmount p) - spent p\<bar>
       \<and> percentageUsed p = Fin (toDouble (toDouble (spent p / toDouble (bAmount p)) * 100))
       \<and> isOverBudget p = (toDouble (bAmount p) < spent p))"
proof (rule conjI; intro ballI allI impI)
  fix p assume "p \<in> set (getBudgets uid period db)" and pos: "0 < bAmount p"
  then obtain b where "p = budgetProgress uid db b" using getBudgets_member by blast
  from budgetProgress_claim[OF this pos]
  show "spent p = calculateSpending uid p db
       \<and> remaining p = js_minus (toDouble (bAmount p)) (spent p)
       \<and> \<bar>remaining p + spent p - toDouble (bAmount p)\<bar>
           \<le> unitRoundoff * \<bar>toDouble (bAmount p) - spent p\<bar>
       \<and> percentageUsed p = Fin (toDouble (toDouble (spent p / toDouble (bAmount p)) * 100))
       \<and> isOverBudget p = (toDouble (bAmount p) < spent p)" .
next
  fix p assume "getBudget uid budgetId db = Inr p \<and> 0 < bAmount p"
  then obtain b where "p = budgetProgress uid db b" and pos: "0 < bAmount p"
    using getBudget_result by blast
  from budgetProgress_claim[OF this]
  show "spent p = calculateSpending uid p db
       \<and> remaining p = js_minus (toDouble (bAmount p)) (spent p)
       \<and> \<bar>remaining p + spent p - toDouble (bAmount p)\<bar>
           \<le> unitRoundoff * \<bar>toDouble (bAmount p) - spent p\<bar>
       \<and> percentageUsed p = Fin (toDouble (toDouble (spent p / toDouble (bAmount p)) * 100))
       \<and> isOverBudget p = (toDouble (bAmount p) < spent p)" .
qed

lemma sample_doubles:
  "toDouble (5001 / 100) = 7038281792649953 / 140737488355328"
  "toDouble (334 / 100) = 940126422213591 / 281474976710656"
  "toDouble (7038281792649953 / 140737488355328 - 940126422213591 / 281474976710656)
     = 3284109290771579 / 70368744177664"
  "toDouble (3284109290771579 / 70368744177664 + 940126422213591 / 281474976710656)
     = 3519140896324977 / 70368744177664"
  "toDouble (4599 / 100) = 6472517089461535 / 140737488355328"
  "toDouble 500 = 500"
  "toDouble (500 - 6472517089461535 / 140737488355328) = 1996757096506327 / 4398046511104"
  "toDouble (toDouble (6472517089461535 / 140737488355328 / 500) * 100)
     = 1294503417892307 / 140737488355328"
  by code_simp+

lemma travel_spending:
  "calculateSpending ''u1'' travelBudget travelDb = 940126422213591 / 281474976710656"
  by (simp add: calculateSpending_def aggregateAmount_def travelDb_def travelBudget_def)
     (simp add: sample_doubles[simplified])

lemma travel_getBudget:
  "getBudget ''u1'' ''b3'' travelDb = Inr (budgetProgress ''u1'' travelDb travelBudget)"
proof -
  have "bUserId travelBudget = ''u1''" "bId travelBudget = ''b3''"
    by (simp_all add: travelBudget_def)
  then show ?thesis by (simp add: getBudget_def travelDb_def)
qed

text \<open>
  \<open>remaining + spent = amount\<close> itself does not hold of the code. For a budget of 50.01 with
  3.34 spent, \<open>remaining\<close> is the double nearest to the difference of the doubles of 50.01
  and 3.34; adding \<open>spent\<close> back gives 50.010000000000005 in doubles, which is not the
  double of 50.01, and the exact sum of the two fields is neither that double nor 50.01.
\<close>

theorem remaining_plus_spent_is_not_amount:
  "0 < bAmount (budgetProgress ''u1'' travelDb travelBudget)
   \<and> getBudget ''u1'' ''b3'' travelDb = Inr (budgetProgress ''u1'' travelDb travelBudget)
   \<and> spent (budgetProgress ''u1'' travelDb travelBudget)
       = 940126422213591 / 281474976710656
   \<and> remaining (budgetProgress ''u1'' travelDb travelBudget)
       = 3284109290771579 / 70368744177664
   \<and> js_plus (remaining (budgetProgress ''u1'' travelDb travelBudget))
        (spent (budgetProgress ''u1'' travelDb travelBudget))
       = 3519140896324977 / 70368744177664
   \<and> toDouble (bAmount (budgetProgress ''u1'' travelDb travelBudget))
       = 7038281792649953 / 140737488355328
   \<and> js_plus (remaining (budgetProgress ''u1'' travelDb travelBudget))
        (spent (budgetProgress ''u1'' travelDb travelBudget))
       \<noteq> toDouble (bAmount (budgetProgress ''u1'' travelDb travelBudget))
   \<and> remaining (budgetProgress ''u1'' travelDb travelBudget)
        + spent (budgetProgress ''u1'' travelDb travelBudget)
       \<noteq> toDouble (bAmount (budgetProgress ''u1'' travelDb travelBudget))
   \<and> remaining (budgetProgress ''u1'' travelDb travelBudget)
        + spent (budgetProgress ''u1'' travelDb travelBudget)
       \<noteq> bAmount (budgetProgress ''u1'' travelDb travelBudget)"
proof -
  let ?p = "budgetProgress ''u1'' travelDb travelBudget"
  have a: "bAmount ?p = 5001 / 100"
    by (simp add: budgetProgress_fields travelBudget_def)
  have s: "spent ?p = 940126422213591 / 281474976710656"
    by (simp add: budgetProgress_fields travel_spending)
  have r: "remaining ?p = 3284109290771579 / 70368744177664"
  proof -
    have "remaining ?p = js_minus (toDouble (bAmount travelBudget))
        (calculateSpending ''u1'' travelBudget travelDb)"
      by (simp only: budgetProgress_fields)
    also have "bAmount travelBudget = 5001 / 100" by (simp add: travelBudget_def)
    finally show ?thesis
      by (simp only: travel_spending js_minus_def sample_doubles)
  qed
  have j: "js_plus (remaining ?p) (spent ?p) = 3519140896324977 / 70368744177664"
    unfolding r s js_plus_def by (rule sample_doubles)
  have d: "toDouble (bAmount ?p) = 7038281792649953 / 140737488355328"
    by (simp only: a sample_doubles)
  have n1: "(3519140896324977 / 70368744177664 :: rat) \<noteq> 7038281792649953 / 140737488355328"
    by simp
  have n2: "(3284109290771579 / 70368744177664 + 940126422213591 / 281474976710656 :: rat)
      \<noteq> 7038281792649953 / 140737488355328"
    by simp
  have n3: "(3284109290771579 / 70368744177664 + 940126422213591 / 281474976710656 :: rat)
      \<noteq> 5001 / 100"
    by simp
  have p: "0 < bAmount ?p" by (simp add: a)
  show ?thesis
    unfolding j d unfolding r s
    using p travel_getBudget n1 n2 n3 unfolding a by (intro conjI) simp_all
qed

lemma market_values:
  "calculateSpending ''u1'' marketBudget marketDb = 6472517089461535 / 140737488355328"
  "getBudgets ''u1'' None marketDb = [budgetProgress ''u1'' marketDb marketBudget]"
  "getBudget ''u1'' ''b8'' marketDb = Inr (budgetProgress ''u1'' marketDb marketBudget)"
  "bAmount marketBudget = 500"
  by (simp_all add: calculateSpending_def aggregateAmount_def marketDb_def marketBudget_def
        alertBudgetRow_def alertExpenseRow_def sample_doubles getBudgets_def getBudget_def)

text \<open>
  The budget of 500 with 45.99 spent: \<open>remaining\<close> and \<open>percentageUsed\<close> are the doubles
  nearest to 454.01 and 9.198, and the budget is not over budget.
\<close>

theorem budget_progress_derived_fields_witness:
  "(\<exists>p\<in>set (getBudgets ''u1'' None marketDb). 0 < bAmount p
       \<and> spent p = 6472517089461535 / 140737488355328
       \<and> remaining p = 1996757096506327 / 4398046511104
       \<and> percentageUsed p = Fin (1294503417892307 / 140737488355328)
       \<and> \<not> isOverBudget p)
   \<and> (\<exists>p. getBudget ''u1'' ''b8'' marketDb = Inr p \<and> 0 < bAmount p
       \<and> spent p = 6472517089461535 / 140737488355328
       \<and> remaining p = 1996757096506327 / 4398046511104
       \<and> percentageUsed p = Fin (1294503417892307 / 140737488355328)
       \<and> \<not> isOverBudget p)"
proof -
  let ?p = "budgetProgress ''u1'' marketDb marketBudget"
  have am: "bAmount ?p = 500"
    by (simp add: budgetProgress_fields(5) market_values)
  have pos: "0 < bAmount ?p" by (simp add: am)
  have sp: "calculateSpending ''u1'' ?p marketDb = 6472517089461535 / 140737488355328"
    by (simp only: budgetProgress_fields(6) market_values)
  have mem: "?p \<in> set (getBudgets ''u1'' None marketDb)"
    by (simp add: market_values)
  have lt: "\<not> (500 :: rat) < 6472517089461535 / 140737488355328" by simp
  note f = budget_progress_derived_fields[of "''u1''" None marketDb "''b8''", THEN conjunct1,
        rule_format, OF mem pos]
  have a: "spent ?p = 6472517089461535 / 140737488355328
       \<and> remaining ?p = 1996757096506327 / 4398046511104
       \<and> percentageUsed ?p = Fin (1294503417892307 / 140737488355328)
       \<and> \<not> isOverBudget ?p"
  proof (intro conjI)
    from f have f1: "spent ?p = calculateSpending ''u1'' ?p marketDb"
      and f2: "remaining ?p = js_minus (toDouble (bAmount ?p)) (spent ?p)"
      and f4: "percentageUsed ?p
                 = Fin (toDouble (toDouble (spent ?p / toDouble (bAmount ?p)) * 100))"
      and f5: "isOverBudget ?p = (toDouble (bAmount ?p) < spent ?p)"
      by blast+
    show s: "spent ?p = 6472517089461535 / 140737488355328"
      using f1 sp by (rule trans)
    show "remaining ?p = 1996757096506327 / 4398046511104"
      unfolding f2 unfolding s am by (simp only: js_minus_def sample_doubles)
    show "percentageUsed ?p = Fin (1294503417892307 / 140737488355328)"
      unfolding f4 unfolding s am by (simp only: sample_doubles)
    show "\<not> isOverBudget ?p"
      unfolding f5 unfolding s am by (simp only: sample_doubles lt not_False_eq_True)
  qed
  note g = budget_progress_derived_fields[of "''u1''" None marketDb "''b8''", THEN conjunct2,
        rule_format, of ?p, OF conjI[OF market_values(3) pos]]
  have b: "spent ?p = 6472517089461535 / 140737488355328
       \<and> remaining ?p = 1996757096506327 / 4398046511104
       \<and> percentageUsed ?p = Fin (1294503417892307 / 140737488355328)
       \<and> \<not> isOverBudget ?p"
  proof (intro conjI)
    from g have f1: "spent ?p = calculateSpending ''u1'' ?p marketDb"
      and f2: "remaining ?p = js_minus (toDouble (bAmount ?p)) (spent ?p)"
      and f4: "percentageUsed ?p
                 = Fin (toDouble (toDouble (spent ?p / toDouble (bAmount ?p)) * 100))"
      and f5: "isOverBudget ?p = (toDouble (bAmount ?p) < spent ?p)"
      by blast+
    show s: "spent ?p = 6472517089461535 / 140737488355328"
      using f1 sp by (rule trans)
    show "remaining ?p = 1996757096506327 / 4398046511104"
      unfolding f2 unfolding s am by (simp only: js_minus_def sample_doubles)
    show "percentageUsed ?p = Fin (1294503417892307 / 140737488355328)"
      unfolding f4 unfolding s am by (simp only: sample_doubles)
    show "\<not> isOverBudget ?p"
      unfolding f5 unfolding s am by (simp only: sample_doubles lt not_False_eq_True)
  qed
  have "\<exists>p\<in>set (getBudgets ''u1'' None marketDb). 0 < bAmount p
       \<and> spent p = 6472517089461535 / 140737488355328
       \<and> remaining p = 1996757096506327 / 4398046511104
       \<and> percentageUsed p = Fin (1294503417892307 / 140737488355328)
       \<and> \<not> isOverBudget p"
    using a pos mem by blast
  moreover have "\<exists>p. getBudget ''u1'' ''b8'' marketDb = Inr p \<and> 0 < bAmount p
       \<and> spent p = 6472517089461535 / 140737488355328
       \<and> remaining p = 1996757096506327 / 4398046511104
       \<and> percentageUsed p = Fin (1294503417892307 / 140737488355328)
       \<and> \<not> isOverBudget p"
    using b pos market_values(3) by blast
  ultimately show ?thesis by (rule conjI)
qed

section \<open>Budget alerts\<close>















section \<open>Spending by category\<close>

lemma step_upper:
  fixes u U X a y z :: rat
  assumes "0 \<le> u" and "1 \<le> U" and "0 \<le> a" and "y \<le> U * X"
    and "z \<le> (1 + u) * (y + a)"
  shows "z \<le> ((1 + u) * U) * (X + a)"
proof -
  have "a \<le> U * a" using assms(2,3) by (simp add: mult_le_cancel_right1)
  then have "y + a \<le> U * (X + a)" using assms(4) by (simp add: distrib_left)
  then have "(1 + u) * (y + a) \<le> (1 + u) * (U * (X + a))"
    using assms(1) by (intro mult_left_mono) simp_all
  with assms(5) show ?thesis by (simp add: mult.assoc)
qed

lemma step_lower:
  fixes u L X a y z :: rat
  assumes "u \<le> 1" and "0 \<le> L" and "L \<le> 1" and "0 \<le> a" and "L * X \<le> y"
    and "(1 - u) * (y + a) \<le> z"
  shows "((1 - u) * L) * (X + a) \<le> z"
proof -
  have "L * a \<le> a" using assms(3,4) by (simp add: mult_le_cancel_right2)
  then have "L * (X + a) \<le> y + a" using assms(5) by (simp add: distrib_left)
  then have "(1 - u) * (L * (X + a)) \<le> (1 - u) * (y + a)"
    using assms(1) by (intro mult_left_mono) simp_all
  with assms(6) show ?thesis by (simp add: mult.assoc)
qed

lemma bucket_step:
  fixes u b B a v :: rat
  assumes "0 \<le> u" and "b \<le> B" and "(1 - u) * (b + a) \<le> v" and "v \<le> (1 + u) * (b + a)"
  shows "(1 - u) * (B + a) \<le> B - b + v" and "B - b + v \<le> (1 + u) * (B + a)"
proof -
  have "u * b \<le> u * B" using assms(1,2) by (rule mult_left_mono[rotated])
  then show "(1 - u) * (B + a) \<le> B - b + v" and "B - b + v \<le> (1 + u) * (B + a)"
    using assms(3,4) by (simp_all add: algebra_simps)
qed

lemma mapSet_amounts:
  fixes a :: rat
  shows "sum_list (map (\<lambda>e. fst (snd e)) (mapSet k (a, c) m))
     = sum_list (map (\<lambda>e. fst (snd e)) m)
       - (case map_of m k of None \<Rightarrow> 0 | Some e \<Rightarrow> fst e) + a"
  by (induction m) auto

lemma mapSet_not_Nil: "mapSet k v m \<noteq> []"
  by (cases m) (auto split: if_splits)

lemma mapSet_set: "set (mapSet k v m) \<subseteq> insert (k, v) (set m)"
  by (induction m) (auto split: if_splits)

lemma existing_amount_bounds:
  fixes m :: "('k \<times> rat \<times> nat) list"
  assumes "\<forall>e\<in>set m. 0 \<le> fst (snd e)"
  shows "0 \<le> (case map_of m k of None \<Rightarrow> 0 | Some e \<Rightarrow> fst e)"
    and "(case map_of m k of None \<Rightarrow> 0 | Some e \<Rightarrow> fst e) \<le> sum_list (map (\<lambda>e. fst (snd e)) m)"
proof -
  have nn: "0 \<le> sum_list (map (\<lambda>e. fst (snd e)) m)"
    using assms by (intro sum_list_nonneg) auto
  show "0 \<le> (case map_of m k of None \<Rightarrow> 0 | Some e \<Rightarrow> fst e)"
  proof (cases "map_of m k")
    case None then show ?thesis by simp
  next
    case (Some e)
    then have "(k, e) \<in> set m" by (rule map_of_SomeD)
    with assms have "0 \<le> fst e" by force
    with Some show ?thesis by simp
  qed
  show "(case map_of m k of None \<Rightarrow> 0 | Some e \<Rightarrow> fst e) \<le> sum_list (map (\<lambda>e. fst (snd e)) m)"
  proof (cases "map_of m k")
    case None with nn show ?thesis by simp
  next
    case (Some e)
    then have "(k, e) \<in> set m" by (rule map_of_SomeD)
    then have "fst (snd (k, e)) \<in> set (map (\<lambda>e. fst (snd e)) m)"
      by (simp only: set_map) (rule imageI)
    moreover have "\<forall>x\<in>set (map (\<lambda>e. fst (snd e)) m). 0 \<le> x"
      using assms by auto
    ultimately have "fst (snd (k, e)) \<le> sum_list (map (\<lambda>e. fst (snd e)) m)"
      by (intro member_le_sum_list) auto
    with Some show ?thesis by simp
  qed
qed

lemma groupByCategory_total:
  "snd (groupByCategory db ts (m, tot))
     = foldl (\<lambda>total' t. js_plus total' (toDouble (txAmount t))) tot ts"
  by (induction ts arbitrary: m tot) (simp_all add: Let_def)

lemma groupByCategory_Nil:
  "fst (groupByCategory db ts (m, tot)) = [] \<longleftrightarrow> ts = [] \<and> m = []"
  by (induction ts arbitrary: m tot) (simp_all add: Let_def mapSet_not_Nil)

lemma groupByCategory_bounds:
  fixes m :: "(string \<times> rat \<times> nat) list"
  assumes "\<forall>t\<in>set ts. 0 \<le> txAmount t"
    and "\<forall>e\<in>set m. 0 \<le> fst (snd e)"
    and "0 \<le> tot"
    and "(1 - unitRoundoff) ^ k * X \<le> sum_list (map (\<lambda>e. fst (snd e)) m)"
    and "sum_list (map (\<lambda>e. fst (snd e)) m) \<le> (1 + unitRoundoff) ^ k * X"
    and "(1 - unitRoundoff) ^ k * X \<le> tot"
    and "tot \<le> (1 + unitRoundoff) ^ k * X"
  shows "(\<forall>e\<in>set (fst (groupByCategory db ts (m, tot))). 0 \<le> fst (snd e))
     \<and> 0 \<le> snd (groupByCategory db ts (m, tot))
     \<and> (1 - unitRoundoff) ^ (k + length ts)
           * (X + sum_list (map (\<lambda>t. toDouble (txAmount t)) ts))
         \<le> sum_list (map (\<lambda>e. fst (snd e)) (fst (groupByCategory db ts (m, tot))))
     \<and> sum_list (map (\<lambda>e. fst (snd e)) (fst (groupByCategory db ts (m, tot))))
         \<le> (1 + unitRoundoff) ^ (k + length ts)
           * (X + sum_list (map (\<lambda>t. toDouble (txAmount t)) ts))
     \<and> (1 - unitRoundoff) ^ (k + length ts)
           * (X + sum_list (map (\<lambda>t. toDouble (txAmount t)) ts))
         \<le> snd (groupByCategory db ts (m, tot))
     \<and> snd (groupByCategory db ts (m, tot))
         \<le> (1 + unitRoundoff) ^ (k + length ts)
           * (X + sum_list (map (\<lambda>t. toDouble (txAmount t)) ts))"
  using assms
proof (induction ts arbitrary: m tot k X)
  case Nil
  then show ?case by simp
next
  case (Cons t ts)
  define a where "a = toDouble (txAmount t)"
  define c where "c = categoryNameOf db t"
  define ex where "ex = (case map_of m c of None \<Rightarrow> (0 :: rat, 0 :: nat) | Some e \<Rightarrow> e)"
  define v where "v = js_plus (fst ex) a"
  define m' where "m' = mapSet c (v, snd ex + 1) m"
  define tot' where "tot' = js_plus tot a"
  have step: "groupByCategory db (t # ts) (m, tot) = groupByCategory db ts (m', tot')"
    by (simp add: Let_def a_def c_def ex_def v_def m'_def tot'_def)
  have rest: "\<forall>t\<in>set ts. 0 \<le> txAmount t"
    using Cons.prems(1) by simp
  have a0: "0 \<le> a"
    using Cons.prems(1) by (simp add: a_def toDouble_nonneg)
  have b: "fst ex = (case map_of m c of None \<Rightarrow> 0 | Some e \<Rightarrow> fst e)"
    by (simp add: ex_def split: option.split)
  have b0: "0 \<le> fst ex"
    and bB: "fst ex \<le> sum_list (map (\<lambda>e. fst (snd e)) m)"
    using existing_amount_bounds[OF Cons.prems(2), of c] by (simp_all add: b)
  have vl: "(1 - unitRoundoff) * (fst ex + a) \<le> v"
    and vu: "v \<le> (1 + unitRoundoff) * (fst ex + a)"
    and v0: "0 \<le> v"
    unfolding v_def by (rule js_plus_bounds[OF b0 a0])+
  have tl: "(1 - unitRoundoff) * (tot + a) \<le> tot'"
    and tu: "tot' \<le> (1 + unitRoundoff) * (tot + a)"
    and t0: "0 \<le> tot'"
    unfolding tot'_def by (rule js_plus_bounds[OF Cons.prems(3) a0])+
  have Am': "sum_list (map (\<lambda>e. fst (snd e)) m')
     = sum_list (map (\<lambda>e. fst (snd e)) m) - fst ex + v"
    unfolding m'_def b by (rule mapSet_amounts)
  have nn': "\<forall>e\<in>set m'. 0 \<le> fst (snd e)"
    using mapSet_set[of c "(v, snd ex + 1)" m] Cons.prems(2) v0 unfolding m'_def by auto
  have Bl: "(1 - unitRoundoff) * (sum_list (map (\<lambda>e. fst (snd e)) m) + a)
      \<le> sum_list (map (\<lambda>e. fst (snd e)) m')"
    and Bu: "sum_list (map (\<lambda>e. fst (snd e)) m')
      \<le> (1 + unitRoundoff) * (sum_list (map (\<lambda>e. fst (snd e)) m) + a)"
    unfolding Am' by (rule bucket_step[OF unitRoundoff_range(3) bB vl vu])+
  have pu: "1 \<le> (1 + unitRoundoff) ^ k"
    by (rule one_le_power) (rule unitRoundoff_range(7))
  have pl0: "0 \<le> (1 - unitRoundoff) ^ k"
    by (rule zero_le_power) (rule unitRoundoff_range(5))
  have pl1: "(1 - unitRoundoff) ^ k \<le> 1"
    by (rule power_le_one) (rule unitRoundoff_range(5), rule unitRoundoff_range(6))
  have u1: "unitRoundoff \<le> 1"
    using unitRoundoff_range(2) by simp
  have Bu': "sum_list (map (\<lambda>e. fst (snd e)) m') \<le> (1 + unitRoundoff) ^ Suc k * (X + a)"
    using step_upper[OF unitRoundoff_range(3) pu a0 Cons.prems(5) Bu] by simp
  have Bl': "(1 - unitRoundoff) ^ Suc k * (X + a) \<le> sum_list (map (\<lambda>e. fst (snd e)) m')"
    using step_lower[OF u1 pl0 pl1 a0 Cons.prems(4) Bl] by simp
  have Tu': "tot' \<le> (1 + unitRoundoff) ^ Suc k * (X + a)"
    using step_upper[OF unitRoundoff_range(3) pu a0 Cons.prems(7) tu] by simp
  have Tl': "(1 - unitRoundoff) ^ Suc k * (X + a) \<le> tot'"
    using step_lower[OF u1 pl0 pl1 a0 Cons.prems(6) tl] by simp
  have e1: "Suc k + length ts = k + length (t # ts)"
    by simp
  have e2: "X + a + sum_list (map (\<lambda>t. toDouble (txAmount t)) ts)
      = X + sum_list (map (\<lambda>t. toDouble (txAmount t)) (t # ts))"
    by (simp add: a_def)
  show ?case
    using Cons.IH[OF rest nn' t0 Bl' Bu' Tl' Tu'] unfolding step e1 e2 .
qed

lemma mapSet_length: "length (mapSet k v m) \<le> Suc (length m)"
  by (induction m) auto

lemma groupByCategory_length:
  "length (fst (groupByCategory db ts (m, tot))) \<le> length m + length ts"
proof (induction ts arbitrary: m tot)
  case Nil
  then show ?case by simp
next
  case (Cons t ts)
  obtain v tot' where step: "groupByCategory db (t # ts) (m, tot)
      = groupByCategory db ts (mapSet (categoryNameOf db t) v m, tot')"
    by (simp add: Let_def)
  have "length (fst (groupByCategory db ts (mapSet (categoryNameOf db t) v m, tot')))
      \<le> length (mapSet (categoryNameOf db t) v m) + length ts"
    by (rule Cons.IH)
  also have "\<dots> \<le> Suc (length m) + length ts"
    using mapSet_length[of "categoryNameOf db t" v m] by (rule add_le_mono1)
  finally show ?case
    unfolding step by simp
qed

lemma percentage_bounds:
  assumes "0 < T" and "0 \<le> b"
  shows "(1 - unitRoundoff)\<^sup>2 * (100 * b / T) \<le> toDouble (toDouble (b / T) * 100)"
    and "toDouble (toDouble (b / T) * 100) \<le> (1 + unitRoundoff)\<^sup>2 * (100 * b / T)"
    and "0 \<le> toDouble (toDouble (b / T) * 100)"
proof -
  have q0: "0 \<le> b / T"
    using assms by simp
  have y0: "0 \<le> toDouble (b / T) * 100"
    using toDouble_nonneg[OF q0] by simp
  have yl: "(1 - unitRoundoff) * (b / T) \<le> toDouble (b / T)"
    and yu: "toDouble (b / T) \<le> (1 + unitRoundoff) * (b / T)"
    by (rule toDouble_nonneg_bounds[OF q0])+
  have zl: "(1 - unitRoundoff) * (toDouble (b / T) * 100) \<le> toDouble (toDouble (b / T) * 100)"
    and zu: "toDouble (toDouble (b / T) * 100) \<le> (1 + unitRoundoff) * (toDouble (b / T) * 100)"
    by (rule toDouble_nonneg_bounds[OF y0])+
  have "(1 - unitRoundoff) * ((1 - unitRoundoff) * (b / T) * 100)
      \<le> (1 - unitRoundoff) * (toDouble (b / T) * 100)"
    using yl unitRoundoff_range(5) by (intro mult_left_mono mult_right_mono) simp_all
  moreover have "(1 - unitRoundoff)\<^sup>2 * (100 * b / T)
      = (1 - unitRoundoff) * ((1 - unitRoundoff) * (b / T) * 100)"
    by (simp add: power2_eq_square)
  ultimately show "(1 - unitRoundoff)\<^sup>2 * (100 * b / T) \<le> toDouble (toDouble (b / T) * 100)"
    using zl by linarith
  have "(1 + unitRoundoff) * (toDouble (b / T) * 100)
      \<le> (1 + unitRoundoff) * ((1 + unitRoundoff) * (b / T) * 100)"
    using yu unitRoundoff_range(8) by (intro mult_left_mono mult_right_mono) simp_all
  moreover have "(1 + unitRoundoff)\<^sup>2 * (100 * b / T)
      = (1 + unitRoundoff) * ((1 + unitRoundoff) * (b / T) * 100)"
    by (simp add: power2_eq_square)
  ultimately show "toDouble (toDouble (b / T) * 100) \<le> (1 + unitRoundoff)\<^sup>2 * (100 * b / T)"
    using zu by linarith
  show "0 \<le> toDouble (toDouble (b / T) * 100)"
    by (rule toDouble_nonneg[OF y0])
qed

lemma percentage_sum_lower:
  fixes f :: "'a \<Rightarrow> rat"
  assumes "0 < T" and "\<forall>e\<in>set m. 0 \<le> f e"
  shows "(1 - unitRoundoff)\<^sup>2 * (100 * sum_list (map f m) / T)
     \<le> sum_list (map (\<lambda>e. toDouble (toDouble (f e / T) * 100)) m)"
  using assms(2)
proof (induction m)
  case Nil
  then show ?case by simp
next
  case (Cons a m)
  have "(1 - unitRoundoff)\<^sup>2 * (100 * sum_list (map f (a # m)) / T)
      = (1 - unitRoundoff)\<^sup>2 * (100 * f a / T)
        + (1 - unitRoundoff)\<^sup>2 * (100 * sum_list (map f m) / T)"
    by (simp add: distrib_left add_divide_distrib)
  moreover have "(1 - unitRoundoff)\<^sup>2 * (100 * f a / T) \<le> toDouble (toDouble (f a / T) * 100)"
    using Cons.prems by (intro percentage_bounds(1)[OF assms(1)]) simp
  moreover have "(1 - unitRoundoff)\<^sup>2 * (100 * sum_list (map f m) / T)
     \<le> sum_list (map (\<lambda>e. toDouble (toDouble (f e / T) * 100)) m)"
    using Cons.prems by (intro Cons.IH) simp
  ultimately show ?case by simp
qed

lemma percentage_sum_upper:
  fixes f :: "'a \<Rightarrow> rat"
  assumes "0 < T" and "\<forall>e\<in>set m. 0 \<le> f e"
  shows "sum_list (map (\<lambda>e. toDouble (toDouble (f e / T) * 100)) m)
     \<le> (1 + unitRoundoff)\<^sup>2 * (100 * sum_list (map f m) / T)"
  using assms(2)
proof (induction m)
  case Nil
  then show ?case by simp
next
  case (Cons a m)
  have "(1 + unitRoundoff)\<^sup>2 * (100 * sum_list (map f (a # m)) / T)
      = (1 + unitRoundoff)\<^sup>2 * (100 * f a / T)
        + (1 + unitRoundoff)\<^sup>2 * (100 * sum_list (map f m) / T)"
    by (simp add: distrib_left add_divide_distrib)
  moreover have "toDouble (toDouble (f a / T) * 100) \<le> (1 + unitRoundoff)\<^sup>2 * (100 * f a / T)"
    using Cons.prems by (intro percentage_bounds(2)[OF assms(1)]) simp
  moreover have "sum_list (map (\<lambda>e. toDouble (toDouble (f e / T) * 100)) m)
     \<le> (1 + unitRoundoff)\<^sup>2 * (100 * sum_list (map f m) / T)"
    using Cons.prems by (intro Cons.IH) simp
  ultimately show ?case by simp
qed

lemma js_plus_fold_bounds:
  assumes "\<forall>p\<in>set ps. 0 \<le> p"
    and "0 \<le> acc"
    and "(1 - unitRoundoff) ^ k * X \<le> acc"
    and "acc \<le> (1 + unitRoundoff) ^ k * X"
  shows "0 \<le> foldl js_plus acc ps
     \<and> (1 - unitRoundoff) ^ (k + length ps) * (X + sum_list ps) \<le> foldl js_plus acc ps
     \<and> foldl js_plus acc ps \<le> (1 + unitRoundoff) ^ (k + length ps) * (X + sum_list ps)"
  using assms
proof (induction ps arbitrary: acc k X)
  case Nil
  then show ?case by simp
next
  case (Cons a ps)
  have rest: "\<forall>p\<in>set ps. 0 \<le> p" and a0: "0 \<le> a"
    using Cons.prems(1) by simp_all
  have tl: "(1 - unitRoundoff) * (acc + a) \<le> js_plus acc a"
    and tu: "js_plus acc a \<le> (1 + unitRoundoff) * (acc + a)"
    and t0: "0 \<le> js_plus acc a"
    by (rule js_plus_bounds[OF Cons.prems(2) a0])+
  have pu: "1 \<le> (1 + unitRoundoff) ^ k"
    by (rule one_le_power) (rule unitRoundoff_range(7))
  have pl0: "0 \<le> (1 - unitRoundoff) ^ k"
    by (rule zero_le_power) (rule unitRoundoff_range(5))
  have pl1: "(1 - unitRoundoff) ^ k \<le> 1"
    by (rule power_le_one) (rule unitRoundoff_range(5), rule unitRoundoff_range(6))
  have u1: "unitRoundoff \<le> 1"
    using unitRoundoff_range(2) by simp
  have Tu': "js_plus acc a \<le> (1 + unitRoundoff) ^ Suc k * (X + a)"
    using step_upper[OF unitRoundoff_range(3) pu a0 Cons.prems(4) tu] by simp
  have Tl': "(1 - unitRoundoff) ^ Suc k * (X + a) \<le> js_plus acc a"
    using step_lower[OF u1 pl0 pl1 a0 Cons.prems(3) tl] by simp
  have e1: "Suc k + length ps = k + length (a # ps)"
    by simp
  have e2: "X + a + sum_list ps = X + sum_list (a # ps)"
    by simp
  have e3: "foldl js_plus (js_plus acc a) ps = foldl js_plus acc (a # ps)"
    by simp
  show ?case
    using Cons.IH[OF rest t0 Tl' Tu'] unfolding e1 e2 e3 .
qed

lemma sum_list_insort_key:
  "sum_list (map f (insort_key g x xs)) = f x + sum_list (map f xs)"
  for f :: "'a \<Rightarrow> rat"
  by (induction xs) simp_all

lemma sum_list_sort_key:
  "sum_list (map f (sort_key g xs)) = sum_list (map f xs)"
  for f :: "'a \<Rightarrow> rat"
  by (induction xs) (simp_all add: sum_list_insort_key)

lemma getSpendingByCategory_unfold:
  "getSpendingByCategory uid s e db =
     sort_key (\<lambda>r. - csAmount r)
       (map (\<lambda>(category, data).
               \<lparr>csCategory = category, csAmount = fst data, csCount = snd data,
                csPercentage =
                  (if 0 < matchedExpenseTotal uid s e db
                   then js_times (js_div (fst data) (matchedExpenseTotal uid s e db)) 100
                   else Fin 0)\<rparr>)
          (fst (groupByCategory db (matchedExpenses uid s e db) ([], 0))))"
  by (simp add: getSpendingByCategory_def Let_def matchedExpenses_def matchedExpenseTotal_def
        groupByCategory_total cong: if_cong)

lemma getSpendingByCategory_percentage:
  assumes "r \<in> set (getSpendingByCategory uid s e db)"
  shows "csPercentage r =
           (if 0 < matchedExpenseTotal uid s e db
            then js_times (js_div (csAmount r) (matchedExpenseTotal uid s e db)) 100
            else Fin 0)"
  using assms unfolding getSpendingByCategory_unfold
  by auto

lemma getSpendingByCategory_Nil:
  "getSpendingByCategory uid s e db = [] \<longleftrightarrow> matchedExpenses uid s e db = []"
proof -
  have "getSpendingByCategory uid s e db = []
        \<longleftrightarrow> length (getSpendingByCategory uid s e db) = 0" by simp
  also have "\<dots> \<longleftrightarrow> fst (groupByCategory db (matchedExpenses uid s e db) ([], 0)) = []"
    unfolding getSpendingByCategory_unfold by simp
  also have "\<dots> \<longleftrightarrow> matchedExpenses uid s e db = []"
    by (simp add: groupByCategory_Nil)
  finally show ?thesis .
qed

lemma getSpendingByCategory_length:
  "length (getSpendingByCategory uid s e db) \<le> length (matchedExpenses uid s e db)"
  unfolding getSpendingByCategory_unfold
  using groupByCategory_length[of db "matchedExpenses uid s e db" "[]" 0] by simp

lemma getSpendingByCategory_sum:
  fixes f :: "rat \<Rightarrow> rat"
  shows "sum_list (map (\<lambda>r. f (csAmount r)) (getSpendingByCategory uid s e db))
     = sum_list (map (\<lambda>e. f (fst (snd e)))
         (fst (groupByCategory db (matchedExpenses uid s e db) ([], 0))))"
  unfolding getSpendingByCategory_unfold sum_list_sort_key
  by (simp add: comp_def case_prod_unfold)

lemma getSpendingByCategory_percentages:
  assumes "0 < matchedExpenseTotal uid s e db"
  shows "map csPercentage (getSpendingByCategory uid s e db)
     = map Fin (map (\<lambda>r. toDouble (toDouble (csAmount r / matchedExpenseTotal uid s e db) * 100))
         (getSpendingByCategory uid s e db))"
  using assms by (simp add: getSpendingByCategory_percentage js_div_def)

lemma matchedExpenses_bounds:
  assumes "\<forall>t\<in>set (matchedExpenses uid s e db). 0 \<le> txAmount t"
  shows "\<forall>e\<in>set (fst (groupByCategory db (matchedExpenses uid s e db) ([], 0))). 0 \<le> fst (snd e)"
    and "(1 - unitRoundoff) ^ length (matchedExpenses uid s e db)
           * sum_list (map (\<lambda>t. toDouble (txAmount t)) (matchedExpenses uid s e db))
         \<le> sum_list (map (\<lambda>e. fst (snd e))
              (fst (groupByCategory db (matchedExpenses uid s e db) ([], 0))))"
    and "sum_list (map (\<lambda>e. fst (snd e))
              (fst (groupByCategory db (matchedExpenses uid s e db) ([], 0))))
         \<le> (1 + unitRoundoff) ^ length (matchedExpenses uid s e db)
           * sum_list (map (\<lambda>t. toDouble (txAmount t)) (matchedExpenses uid s e db))"
    and "(1 - unitRoundoff) ^ length (matchedExpenses uid s e db)
           * sum_list (map (\<lambda>t. toDouble (txAmount t)) (matchedExpenses uid s e db))
         \<le> matchedExpenseTotal uid s e db"
    and "matchedExpenseTotal uid s e db
         \<le> (1 + unitRoundoff) ^ length (matchedExpenses uid s e db)
           * sum_list (map (\<lambda>t. toDouble (txAmount t)) (matchedExpenses uid s e db))"
  using groupByCategory_bounds[where ts = "matchedExpenses uid s e db" and m = "[]"
      and tot = 0 and k = 0 and X = 0 and db = db] assms
  by (simp_all add: groupByCategory_total matchedExpenseTotal_def)

lemma ratio_bounds:
  fixes B T S L U :: rat
  assumes "0 < T" and "0 < L" and "0 < U"
    and "L * S \<le> B" and "B \<le> U * S" and "L * S \<le> T" and "T \<le> U * S"
  shows "L / U \<le> B / T" and "B / T \<le> U / L"
proof -
  have "0 < U * S"
    using assms(1,7) by linarith
  then have S_pos: "0 < S"
    using assms(3) by (simp add: zero_less_mult_iff)
  have LS: "0 < L * S"
    using assms(2) S_pos by (rule mult_pos_pos)
  have "L * S / (U * S) \<le> B / T"
    using LS assms(4) assms(1) assms(7) by (intro frac_le) simp_all
  then show "L / U \<le> B / T"
    using S_pos by simp
  have "0 \<le> B"
    using LS assms(4) by linarith
  then have "B / T \<le> U * S / (L * S)"
    using assms(5) LS assms(6) by (intro frac_le) simp_all
  then show "B / T \<le> U / L"
    using S_pos by simp
qed

lemma getSpendingByCategory_amount_nonneg:
  assumes "\<forall>t\<in>set (matchedExpenses uid s e db). 0 \<le> txAmount t"
    and "r \<in> set (getSpendingByCategory uid s e db)"
  shows "0 \<le> csAmount r"
  using matchedExpenses_bounds(1)[OF assms(1)] assms(2)
  unfolding getSpendingByCategory_unfold by auto

lemma percentage_total_bounds:
  assumes "\<forall>t\<in>set (matchedExpenses uid s e db). 0 \<le> txAmount t"
    and "0 < matchedExpenseTotal uid s e db"
  shows "100 * (1 - unitRoundoff) ^ (length (matchedExpenses uid s e db) + 2)
           / (1 + unitRoundoff) ^ length (matchedExpenses uid s e db)
         \<le> sum_list (map (\<lambda>r. toDouble (toDouble (csAmount r / matchedExpenseTotal uid s e db) * 100))
              (getSpendingByCategory uid s e db))"
    and "sum_list (map (\<lambda>r. toDouble (toDouble (csAmount r / matchedExpenseTotal uid s e db) * 100))
              (getSpendingByCategory uid s e db))
         \<le> 100 * (1 + unitRoundoff) ^ (length (matchedExpenses uid s e db) + 2)
           / (1 - unitRoundoff) ^ length (matchedExpenses uid s e db)"
proof -
  let ?T = "matchedExpenseTotal uid s e db"
  let ?n = "length (matchedExpenses uid s e db)"
  let ?G = "fst (groupByCategory db (matchedExpenses uid s e db) ([], 0))"
  let ?B = "sum_list (map (\<lambda>e. fst (snd e)) ?G)"
  let ?L = "(1 - unitRoundoff) ^ ?n"
  let ?U = "(1 + unitRoundoff) ^ ?n"
  let ?P = "sum_list (map (\<lambda>e. toDouble (toDouble (fst (snd e) / ?T) * 100)) ?G)"
  note b = matchedExpenses_bounds[OF assms(1)]
  have P: "sum_list (map (\<lambda>r. toDouble (toDouble (csAmount r / ?T) * 100))
              (getSpendingByCategory uid s e db)) = ?P"
    by (rule getSpendingByCategory_sum[where f = "\<lambda>a. toDouble (toDouble (a / ?T) * 100)"])
  have lo: "(1 - unitRoundoff)\<^sup>2 * (100 * ?B / ?T) \<le> ?P"
    by (rule percentage_sum_lower[OF assms(2) b(1)])
  have hi: "?P \<le> (1 + unitRoundoff)\<^sup>2 * (100 * ?B / ?T)"
    by (rule percentage_sum_upper[OF assms(2) b(1)])
  have Lpos: "0 < ?L"
    by (rule zero_less_power) (rule unitRoundoff_range(4))
  have Upos: "0 < ?U"
    by (rule zero_less_power) (rule unitRoundoff_range(9))
  note r = ratio_bounds[OF assms(2) Lpos Upos b(2) b(3) b(4) b(5)]
  have "100 * (1 - unitRoundoff) ^ (?n + 2) / ?U = (1 - unitRoundoff)\<^sup>2 * (100 * (?L / ?U))"
    by (simp add: power_add power2_eq_square)
  also have "\<dots> \<le> (1 - unitRoundoff)\<^sup>2 * (100 * (?B / ?T))"
    using r(1) by (intro mult_left_mono) simp_all
  also have "\<dots> = (1 - unitRoundoff)\<^sup>2 * (100 * ?B / ?T)"
    by simp
  also note lo
  finally show "100 * (1 - unitRoundoff) ^ (?n + 2) / ?U
         \<le> sum_list (map (\<lambda>r. toDouble (toDouble (csAmount r / ?T) * 100))
              (getSpendingByCategory uid s e db))"
    unfolding P .
  note hi
  also have "(1 + unitRoundoff)\<^sup>2 * (100 * ?B / ?T) = (1 + unitRoundoff)\<^sup>2 * (100 * (?B / ?T))"
    by simp
  also have "\<dots> \<le> (1 + unitRoundoff)\<^sup>2 * (100 * (?U / ?L))"
    using r(2) by (intro mult_left_mono) simp_all
  also have "\<dots> = 100 * (1 + unitRoundoff) ^ (?n + 2) / ?L"
    by (simp add: power_add power2_eq_square)
  finally show "sum_list (map (\<lambda>r. toDouble (toDouble (csAmount r / ?T) * 100))
              (getSpendingByCategory uid s e db))
         \<le> 100 * (1 + unitRoundoff) ^ (?n + 2) / ?L"
    unfolding P .
qed

lemma percentage_fold_bounds:
  assumes "\<forall>t\<in>set (matchedExpenses uid s e db). 0 \<le> txAmount t"
    and "0 < matchedExpenseTotal uid s e db"
  shows "100 * (1 - unitRoundoff) ^ (2 * length (matchedExpenses uid s e db) + 2)
           / (1 + unitRoundoff) ^ length (matchedExpenses uid s e db)
         \<le> foldl js_plus 0
              (map (\<lambda>r. toDouble (toDouble (csAmount r / matchedExpenseTotal uid s e db) * 100))
                 (getSpendingByCategory uid s e db))"
    and "foldl js_plus 0
              (map (\<lambda>r. toDouble (toDouble (csAmount r / matchedExpenseTotal uid s e db) * 100))
                 (getSpendingByCategory uid s e db))
         \<le> 100 * (1 + unitRoundoff) ^ (2 * length (matchedExpenses uid s e db) + 2)
           / (1 - unitRoundoff) ^ length (matchedExpenses uid s e db)"
proof -
  let ?T = "matchedExpenseTotal uid s e db"
  let ?n = "length (matchedExpenses uid s e db)"
  let ?L = "(1 - unitRoundoff) ^ ?n"
  let ?U = "(1 + unitRoundoff) ^ ?n"
  let ?ps = "map (\<lambda>r. toDouble (toDouble (csAmount r / ?T) * 100))
      (getSpendingByCategory uid s e db)"
  have nn: "\<forall>p\<in>set ?ps. 0 \<le> p"
    using percentage_bounds(3)[OF assms(2)] getSpendingByCategory_amount_nonneg[OF assms(1)]
    by auto
  have f: "(1 - unitRoundoff) ^ length ?ps * sum_list ?ps \<le> foldl js_plus 0 ?ps"
    "foldl js_plus 0 ?ps \<le> (1 + unitRoundoff) ^ length ?ps * sum_list ?ps"
    using js_plus_fold_bounds[where ps = "?ps" and acc = 0 and k = 0 and X = 0] nn
    by simp_all
  have m: "length ?ps \<le> ?n"
    using getSpendingByCategory_length[of uid s e db] by simp
  have S0: "0 \<le> sum_list ?ps"
    using nn by (intro sum_list_nonneg) blast
  have pl: "?L \<le> (1 - unitRoundoff) ^ length ?ps"
    by (rule power_decreasing[OF m unitRoundoff_range(5) unitRoundoff_range(6)])
  have pu: "(1 + unitRoundoff) ^ length ?ps \<le> ?U"
    by (rule power_increasing[OF m unitRoundoff_range(7)])
  have L0: "0 \<le> ?L"
    by (rule zero_le_power) (rule unitRoundoff_range(5))
  have U0: "0 \<le> ?U"
    by (rule zero_le_power) (rule unitRoundoff_range(8))
  note t = percentage_total_bounds[OF assms]
  have "100 * (1 - unitRoundoff) ^ (2 * ?n + 2) / ?U
      = ?L * (100 * (1 - unitRoundoff) ^ (?n + 2) / ?U)"
    by (simp add: power_add mult_2)
  also have "\<dots> \<le> ?L * sum_list ?ps"
    using t(1) L0 by (rule mult_left_mono)
  also have "\<dots> \<le> (1 - unitRoundoff) ^ length ?ps * sum_list ?ps"
    using pl S0 by (rule mult_right_mono)
  also note f(1)
  finally show "100 * (1 - unitRoundoff) ^ (2 * ?n + 2) / ?U \<le> foldl js_plus 0 ?ps" .
  note f(2)
  also have "(1 + unitRoundoff) ^ length ?ps * sum_list ?ps \<le> ?U * sum_list ?ps"
    using pu S0 by (rule mult_right_mono)
  also have "\<dots> \<le> ?U * (100 * (1 + unitRoundoff) ^ (?n + 2) / ?L)"
    using t(2) U0 by (rule mult_left_mono)
  also have "\<dots> = 100 * (1 + unitRoundoff) ^ (2 * ?n + 2) / ?L"
    by (simp add: power_add mult_2)
  finally show "foldl js_plus 0 ?ps \<le> 100 * (1 + unitRoundoff) ^ (2 * ?n + 2) / ?L" .
qed

lemma positive_total:
  assumes "\<forall>t\<in>set (matchedExpenses uid s e db). 0 < txAmount t"
    and "matchedExpenses uid s e db \<noteq> []"
  shows "0 < matchedExpenseTotal uid s e db"
proof -
  let ?M = "matchedExpenses uid s e db"
  have nonneg: "\<forall>t\<in>set ?M. 0 \<le> txAmount t"
    using assms(1) by (auto intro: less_imp_le)
  obtain t ts where M: "?M = t # ts"
    using assms(2) by (cases ?M) simp_all
  have "0 \<le> sum_list (map (\<lambda>t. toDouble (txAmount t)) ts)"
    using nonneg M by (intro sum_list_nonneg) (auto intro: toDouble_nonneg)
  moreover have "0 < toDouble (txAmount t)"
    using assms(1) M by (intro toDouble_pos) simp
  ultimately have S: "0 < sum_list (map (\<lambda>t. toDouble (txAmount t)) ?M)"
    unfolding M by simp
  have "0 < (1 - unitRoundoff) ^ length ?M"
    by (rule zero_less_power) (rule unitRoundoff_range(4))
  then have "0 < (1 - unitRoundoff) ^ length ?M * sum_list (map (\<lambda>t. toDouble (txAmount t)) ?M)"
    using S by (rule mult_pos_pos)
  with matchedExpenses_bounds(4)[OF nonneg] show ?thesis
    by linarith
qed

text \<open>
  C8, as the code has it. The amounts of the matched expenses are taken to be non-negative,
  which is the invariant of the data model. When the total that the loop adds up is greater
  than 0, every percentage field is a finite number and the fields sum to 100 up to
  rounding: with \<open>n\<close> matched expenses and \<open>u = 2^-53\<close>, their exact sum lies between
  \<open>100 (1 - u)^(n + 2) / (1 + u)^n\<close> and \<open>100 (1 + u)^(n + 2) / (1 - u)^n\<close>, and their sum
  added up in doubles from 0 lies between \<open>100 (1 - u)^(2 n + 2) / (1 + u)^n\<close> and
  \<open>100 (1 + u)^(2 n + 2) / (1 - u)^n\<close>. The result contains no items exactly when no expense
  matched; in particular it contains none when the total is 0 and every matched amount is
  positive.
\<close>

theorem category_percentages_sum:
  assumes "\<forall>t\<in>set (matchedExpenses uid s e db). 0 \<le> txAmount t"
  shows "(0 < matchedExpenseTotal uid s e db \<longrightarrow>
      (\<exists>ps. map csPercentage (getSpendingByCategory uid s e db) = map Fin ps
         \<and> 100 * (1 - unitRoundoff) ^ (length (matchedExpenses uid s e db) + 2)
               / (1 + unitRoundoff) ^ length (matchedExpenses uid s e db)
             \<le> sum_list ps
         \<and> sum_list ps
             \<le> 100 * (1 + unitRoundoff) ^ (length (matchedExpenses uid s e db) + 2)
               / (1 - unitRoundoff) ^ length (matchedExpenses uid s e db)
         \<and> 100 * (1 - unitRoundoff) ^ (2 * length (matchedExpenses uid s e db) + 2)
               / (1 + unitRoundoff) ^ length (matchedExpenses uid s e db)
             \<le> foldl js_plus 0 ps
         \<and> foldl js_plus 0 ps
             \<le> 100 * (1 + unitRoundoff) ^ (2 * length (matchedExpenses uid s e db) + 2)
               / (1 - unitRoundoff) ^ length (matchedExpenses uid s e db)))
   \<and> (getSpendingByCategory uid s e db = [] \<longleftrightarrow> matchedExpenses uid s e db = [])
   \<and> ((\<forall>t\<in>set (matchedExpenses uid s e db). 0 < txAmount t)
        \<and> matchedExpenseTotal uid s e db = 0 \<longrightarrow>
      getSpendingByCategory uid s e db = [])"
proof (intro conjI impI)
  assume pos: "0 < matchedExpenseTotal uid s e db"
  show "\<exists>ps. map csPercentage (getSpendingByCategory uid s e db) = map Fin ps
         \<and> 100 * (1 - unitRoundoff) ^ (length (matchedExpenses uid s e db) + 2)
               / (1 + unitRoundoff) ^ length (matchedExpenses uid s e db)
             \<le> sum_list ps
         \<and> sum_list ps
             \<le> 100 * (1 + unitRoundoff) ^ (length (matchedExpenses uid s e db) + 2)
               / (1 - unitRoundoff) ^ length (matchedExpenses uid s e db)
         \<and> 100 * (1 - unitRoundoff) ^ (2 * length (matchedExpenses uid s e db) + 2)
               / (1 + unitRoundoff) ^ length (matchedExpenses uid s e db)
             \<le> foldl js_plus 0 ps
         \<and> foldl js_plus 0 ps
             \<le> 100 * (1 + unitRoundoff) ^ (2 * length (matchedExpenses uid s e db) + 2)
               / (1 - unitRoundoff) ^ length (matchedExpenses uid s e db)"
    using getSpendingByCategory_percentages[OF pos]
      percentage_total_bounds[OF assms pos] percentage_fold_bounds[OF assms pos]
    by blast
next
  show "getSpendingByCategory uid s e db = [] \<longleftrightarrow> matchedExpenses uid s e db = []"
    by (rule getSpendingByCategory_Nil)
next
  assume a: "(\<forall>t\<in>set (matchedExpenses uid s e db). 0 < txAmount t)
        \<and> matchedExpenseTotal uid s e db = 0"
  have "matchedExpenses uid s e db = []"
  proof (rule ccontr)
    assume "matchedExpenses uid s e db \<noteq> []"
    with a have "0 < matchedExpenseTotal uid s e db"
      by (intro positive_total) simp_all
    with a show False by simp
  qed
  then show "getSpendingByCategory uid s e db = []"
    by (simp add: getSpendingByCategory_Nil)
qed

text \<open>
  A total of 0 does not by itself empty the result: a single matched expense of amount 0
  gives one bucket, with percentage 0.
\<close>

theorem zero_total_with_items:
  "matchedExpenseTotal ''u1'' 0 10 zeroExpenseDb = 0
   \<and> getSpendingByCategory ''u1'' 0 10 zeroExpenseDb
       = [\<lparr>csCategory = ''Uncategorized'', csAmount = 0, csCount = 1, csPercentage = Fin 0\<rparr>]"
  by (simp add: matchedExpenseTotal_def matchedExpenses_def getSpendingByCategory_def
        zeroExpenseDb_def Let_def categoryNameOf_def toDouble_def js_plus_def)

lemma thirds_doubles:
  "toDouble 1 = 1" "toDouble 2 = 2" "toDouble 3 = 3"
  "toDouble (toDouble (1 / 3) * 100) = 2345624805922133 / 70368744177664"
  "toDouble (2345624805922133 / 70368744177664) = 2345624805922133 / 70368744177664"
  "toDouble (2345624805922133 / 70368744177664 + 2345624805922133 / 70368744177664)
     = 2345624805922133 / 35184372088832"
  "toDouble (2345624805922133 / 35184372088832 + 2345624805922133 / 70368744177664)
     = 7036874417766399 / 70368744177664"
  by code_simp+

lemma thirds_matched:
  "matchedExpenses ''u1'' 0 10 thirdsDb = transactions thirdsDb"
  "matchedExpenses ''u1'' 20 30 thirdsDb = []"
  by (simp_all add: matchedExpenses_def thirdsDb_def)

lemma thirds_total: "matchedExpenseTotal ''u1'' 0 10 thirdsDb = 3"
  unfolding matchedExpenseTotal_def thirds_matched
  by (simp add: thirdsDb_def js_plus_def thirds_doubles)

lemma thirds_groups:
  "fst (groupByCategory thirdsDb (transactions thirdsDb) ([], 0))
     = [(''Food'', (1, 1)), (''Fuel'', (1, 1)), (''Uncategorized'', (1, 1))]"
  by (simp add: thirdsDb_def Let_def categoryNameOf_def js_plus_def thirds_doubles)

lemma thirds_percentage:
  "js_times (js_div 1 3) 100 = Fin (2345624805922133 / 70368744177664)"
  by (simp add: js_div_def thirds_doubles)

lemma thirds_result:
  "getSpendingByCategory ''u1'' 0 10 thirdsDb =
     [\<lparr>csCategory = ''Food'', csAmount = 1, csCount = 1,
       csPercentage = Fin (2345624805922133 / 70368744177664)\<rparr>,
      \<lparr>csCategory = ''Fuel'', csAmount = 1, csCount = 1,
       csPercentage = Fin (2345624805922133 / 70368744177664)\<rparr>,
      \<lparr>csCategory = ''Uncategorized'', csAmount = 1, csCount = 1,
       csPercentage = Fin (2345624805922133 / 70368744177664)\<rparr>]"
  unfolding getSpendingByCategory_unfold thirds_total thirds_matched thirds_groups
  by (simp add: thirds_percentage)

lemma thirds_fold:
  "foldl js_plus 0 [2345624805922133 / 70368744177664, 2345624805922133 / 70368744177664,
      2345624805922133 / 70368744177664] = 7036874417766399 / 70368744177664"
proof -
  have 1: "js_plus 0 (2345624805922133 / 70368744177664) = 2345624805922133 / 70368744177664"
    unfolding js_plus_def add_0 by (rule thirds_doubles)
  have 2: "js_plus (2345624805922133 / 70368744177664) (2345624805922133 / 70368744177664)
      = 2345624805922133 / 35184372088832"
    unfolding js_plus_def by (rule thirds_doubles)
  have 3: "js_plus (2345624805922133 / 35184372088832) (2345624805922133 / 70368744177664)
      = 7036874417766399 / 70368744177664"
    unfolding js_plus_def by (rule thirds_doubles)
  show ?thesis
    unfolding foldl.simps 1 2 3 by (rule refl)
qed

text \<open>
  Three expenses of 1 in three categories. Each share is the double of
  \<open>(1 / 3) * 100\<close>, and the three shares sum to 99.99999999999999, exactly and in doubles:
  within the bounds, and not 100. A range that matches no expense gives no items.
\<close>

theorem category_percentages_sum_witness:
  "map txAmount (matchedExpenses ''u1'' 0 10 thirdsDb) = [1, 1, 1]
   \<and> matchedExpenseTotal ''u1'' 0 10 thirdsDb = 3
   \<and> map csCategory (getSpendingByCategory ''u1'' 0 10 thirdsDb)
       = [''Food'', ''Fuel'', ''Uncategorized'']
   \<and> map csPercentage (getSpendingByCategory ''u1'' 0 10 thirdsDb)
       = map Fin [2345624805922133 / 70368744177664, 2345624805922133 / 70368744177664,
           2345624805922133 / 70368744177664]
   \<and> sum_list [2345624805922133 / 70368744177664, 2345624805922133 / 70368744177664,
        2345624805922133 / 70368744177664 :: rat] = 7036874417766399 / 70368744177664
   \<and> foldl js_plus 0 [2345624805922133 / 70368744177664, 2345624805922133 / 70368744177664,
        2345624805922133 / 70368744177664] = 7036874417766399 / 70368744177664
   \<and> 7036874417766399 / 70368744177664 \<noteq> (100 :: rat)
   \<and> 100 * (1 - unitRoundoff) ^ 5 / (1 + unitRoundoff) ^ 3
       \<le> 7036874417766399 / 70368744177664
   \<and> 7036874417766399 / 70368744177664
       \<le> 100 * (1 + unitRoundoff) ^ 5 / (1 - unitRoundoff) ^ 3
   \<and> 100 * (1 - unitRoundoff) ^ 8 / (1 + unitRoundoff) ^ 3
       \<le> 7036874417766399 / 70368744177664
   \<and> 7036874417766399 / 70368744177664
       \<le> 100 * (1 + unitRoundoff) ^ 8 / (1 - unitRoundoff) ^ 3
   \<and> matchedExpenses ''u1'' 20 30 thirdsDb = []
   \<and> getSpendingByCategory ''u1'' 20 30 thirdsDb = []"
proof -
  let ?p = "2345624805922133 / 70368744177664 :: rat"
  have amounts: "map txAmount (matchedExpenses ''u1'' 0 10 thirdsDb) = [1, 1, 1]"
    unfolding thirds_matched by (simp add: thirdsDb_def)
  then have nonneg: "\<forall>t\<in>set (matchedExpenses ''u1'' 0 10 thirdsDb). 0 \<le> txAmount t"
    unfolding thirds_matched by (simp add: thirdsDb_def)
  have len: "length (matchedExpenses ''u1'' 0 10 thirdsDb) = 3"
    unfolding thirds_matched by (simp add: thirdsDb_def)
  have pos: "0 < matchedExpenseTotal ''u1'' 0 10 thirdsDb"
    unfolding thirds_total by simp
  have cats: "map csCategory (getSpendingByCategory ''u1'' 0 10 thirdsDb)
       = [''Food'', ''Fuel'', ''Uncategorized'']"
    unfolding thirds_result by simp
  have pcts: "map csPercentage (getSpendingByCategory ''u1'' 0 10 thirdsDb)
       = map Fin [?p, ?p, ?p]"
    unfolding thirds_result by simp
  have s: "sum_list [?p, ?p, ?p] = 7036874417766399 / 70368744177664"
    by simp
  have ne: "7036874417766399 / 70368744177664 \<noteq> (100 :: rat)"
    by simp
  from category_percentages_sum[OF nonneg] pos
  obtain ps where ps: "map csPercentage (getSpendingByCategory ''u1'' 0 10 thirdsDb) = map Fin ps"
    and b: "100 * (1 - unitRoundoff) ^ (length (matchedExpenses ''u1'' 0 10 thirdsDb) + 2)
               / (1 + unitRoundoff) ^ length (matchedExpenses ''u1'' 0 10 thirdsDb)
             \<le> sum_list ps"
      "sum_list ps
             \<le> 100 * (1 + unitRoundoff) ^ (length (matchedExpenses ''u1'' 0 10 thirdsDb) + 2)
               / (1 - unitRoundoff) ^ length (matchedExpenses ''u1'' 0 10 thirdsDb)"
      "100 * (1 - unitRoundoff) ^ (2 * length (matchedExpenses ''u1'' 0 10 thirdsDb) + 2)
               / (1 + unitRoundoff) ^ length (matchedExpenses ''u1'' 0 10 thirdsDb)
             \<le> foldl js_plus 0 ps"
      "foldl js_plus 0 ps
             \<le> 100 * (1 + unitRoundoff) ^ (2 * length (matchedExpenses ''u1'' 0 10 thirdsDb) + 2)
               / (1 - unitRoundoff) ^ length (matchedExpenses ''u1'' 0 10 thirdsDb)"
    by blast
  have "map Fin ps = map Fin [?p, ?p, ?p]"
    using ps pcts by (rule trans[OF sym])
  moreover have "inj Fin"
    by (rule injI) simp
  ultimately have ps_eq: "ps = [?p, ?p, ?p]"
    by (rule map_injective)
  have e1: "3 + 2 = (5 :: nat)" and e2: "2 * 3 + 2 = (8 :: nat)"
    by simp_all
  note b' = b[unfolded ps_eq len e1 e2 s thirds_fold]
  have empty: "getSpendingByCategory ''u1'' 20 30 thirdsDb = []"
    using category_percentages_sum[of "''u1''" 20 30 thirdsDb] thirds_matched(2) by simp
  show ?thesis
    using amounts thirds_total cats pcts s thirds_fold ne b' thirds_matched(2) empty
    by blast
qed

section \<open>Sample calendar values and totals\<close>

lemma january_bounds:
  "startOfMonth midJanuary = 1704067200000"
  "endOfMonth midJanuary = 1706745599999"
  "startOfMonth (subMonths midJanuary 1) = 1701388800000"
  "endOfMonth (subMonths midJanuary 1) = 1704067199999"
  by code_simp+

lemma february_bounds:
  "startOfMonth midFebruary = 1706745600000"
  "endOfMonth midFebruary = 1709251199999"
  by code_simp+

lemma analytics_doubles:
  "toDouble 100 = 100" "toDouble 200 = 200" "toDouble 150 = 150" "toDouble 50 = 50"
  "toDouble (- 100) = - 100" "toDouble (- 200) = - 200" "toDouble (- 1) = - 1"
  by code_simp+

lemma toDouble_zero: "toDouble 0 = 0"
  by (simp add: toDouble_def)

lemma january_totals:
  "getTotalByType ''u1'' INCOME 1704067200000 1706745599999 analyticsDb = 100"
  "getTotalByType ''u1'' EXPENSE 1704067200000 1706745599999 analyticsDb = 200"
  "getTotalByType ''u1'' INCOME 1701388800000 1704067199999 analyticsDb = 0"
  "getTotalByType ''u1'' EXPENSE 1701388800000 1704067199999 analyticsDb = 0"
  "getTotalByType ''u1'' INCOME 1706745600000 1709251199999 analyticsDb = 0"
  by (simp_all add: getTotalByType_def aggregateAmount_def analyticsDb_def analytics_doubles
        toDouble_zero)

section \<open>Month-over-month change and savings rate\<close>

text \<open>
  C9. In \<open>getDashboardOverview\<close> the reported change of income is 0 whenever last
  month's income total is 0, and the reported change of expenses is 0 whenever last
  month's expense total is 0, whatever the totals of the current month are.
\<close>

theorem month_over_month_zero_base:
  "(getTotalByType uid INCOME (startOfMonth (subMonths now 1)) (endOfMonth (subMonths now 1)) db
      = 0 \<longrightarrow>
    cmpIncome (ovLastMonthComparison (getDashboardOverview uid now db)) = Fin 0)
   \<and> (getTotalByType uid EXPENSE (startOfMonth (subMonths now 1)) (endOfMonth (subMonths now 1)) db
      = 0 \<longrightarrow>
    cmpExpenses (ovLastMonthComparison (getDashboardOverview uid now db)) = Fin 0)"
  by (simp add: getDashboardOverview_def Let_def)

theorem month_over_month_zero_base_witness:
  "getTotalByType ''u1'' INCOME (startOfMonth (subMonths midJanuary 1))
       (endOfMonth (subMonths midJanuary 1)) analyticsDb = 0
   \<and> getTotalByType ''u1'' EXPENSE (startOfMonth (subMonths midJanuary 1))
       (endOfMonth (subMonths midJanuary 1)) analyticsDb = 0
   \<and> ovMonthlyIncome (getDashboardOverview ''u1'' midJanuary analyticsDb) = 100
   \<and> ovMonthlyExpenses (getDashboardOverview ''u1'' midJanuary analyticsDb) = 200
   \<and> cmpIncome (ovLastMonthComparison (getDashboardOverview ''u1'' midJanuary analyticsDb))
       = Fin 0
   \<and> cmpExpenses (ovLastMonthComparison (getDashboardOverview ''u1'' midJanuary analyticsDb))
       = Fin 0"
proof -
  have h: "getTotalByType ''u1'' INCOME (startOfMonth (subMonths midJanuary 1))
       (endOfMonth (subMonths midJanuary 1)) analyticsDb = 0"
     "getTotalByType ''u1'' EXPENSE (startOfMonth (subMonths midJanuary 1))
       (endOfMonth (subMonths midJanuary 1)) analyticsDb = 0"
    by (simp_all add: january_bounds january_totals)
  have m: "ovMonthlyIncome (getDashboardOverview ''u1'' midJanuary analyticsDb) = 100"
    "ovMonthlyExpenses (getDashboardOverview ''u1'' midJanuary analyticsDb) = 200"
    by (simp_all add: getDashboardOverview_def Let_def january_bounds january_totals)
  from month_over_month_zero_base[of "''u1''" midJanuary analyticsDb] h m
  show ?thesis by blast
qed

text \<open>
  C3, as the code has it. The percentage computations of the analytics service return 0
  when their divisor is 0: the month-over-month changes of income and expenses, the savings
  rate of the dashboard and of the monthly summary, and the percentage share of every
  category bucket.
\<close>

theorem guarded_percentages_zero_divisor:
  "(getTotalByType uid INCOME (startOfMonth (subMonths now 1)) (endOfMonth (subMonths now 1)) db
      = 0 \<longrightarrow>
    cmpIncome (ovLastMonthComparison (getDashboardOverview uid now db)) = Fin 0)
   \<and> (getTotalByType uid EXPENSE (startOfMonth (subMonths now 1)) (endOfMonth (subMonths now 1)) db
      = 0 \<longrightarrow>
    cmpExpenses (ovLastMonthComparison (getDashboardOverview uid now db)) = Fin 0)
   \<and> (getTotalByType uid INCOME (startOfMonth now) (endOfMonth now) db = 0 \<longrightarrow>
    ovSavingsRate (getDashboardOverview uid now db) = Fin 0)
   \<and> (getTotalByType uid INCOME (startOfMonth month) (endOfMonth month) db = 0 \<longrightarrow>
    msSavingsRate (getMonthlySummary uid month db) = Fin 0)
   \<and> (matchedExpenseTotal uid s e db = 0 \<longrightarrow>
    (\<forall>r\<in>set (getSpendingByCategory uid s e db). csPercentage r = Fin 0))"
  by (simp add: getDashboardOverview_def getMonthlySummary_def Let_def
        getSpendingByCategory_percentage)

theorem guarded_percentages_zero_divisor_witness:
  "cmpIncome (ovLastMonthComparison (getDashboardOverview ''u1'' midJanuary analyticsDb)) = Fin 0
   \<and> cmpExpenses (ovLastMonthComparison (getDashboardOverview ''u1'' midJanuary analyticsDb))
       = Fin 0
   \<and> getTotalByType ''u1'' INCOME (startOfMonth midFebruary) (endOfMonth midFebruary)
       analyticsDb = 0
   \<and> ovSavingsRate (getDashboardOverview ''u1'' midFebruary analyticsDb) = Fin 0
   \<and> msSavingsRate (getMonthlySummary ''u1'' midFebruary analyticsDb) = Fin 0
   \<and> matchedExpenseTotal ''u1'' 0 10 zeroExpenseDb = 0
   \<and> map csPercentage (getSpendingByCategory ''u1'' 0 10 zeroExpenseDb) = [Fin 0]"
proof -
  have h: "getTotalByType ''u1'' INCOME (startOfMonth (subMonths midJanuary 1))
       (endOfMonth (subMonths midJanuary 1)) analyticsDb = 0"
     "getTotalByType ''u1'' EXPENSE (startOfMonth (subMonths midJanuary 1))
       (endOfMonth (subMonths midJanuary 1)) analyticsDb = 0"
    by (simp_all add: january_bounds january_totals)
  have f: "getTotalByType ''u1'' INCOME (startOfMonth midFebruary) (endOfMonth midFebruary)
       analyticsDb = 0"
    by (simp add: february_bounds january_totals)
  have z: "matchedExpenseTotal ''u1'' 0 10 zeroExpenseDb = 0"
    by (simp add: matchedExpenseTotal_def matchedExpenses_def zeroExpenseDb_def js_plus_def
          toDouble_zero)
  have l: "getSpendingByCategory ''u1'' 0 10 zeroExpenseDb
       = [\<lparr>csCategory = ''Uncategorized'', csAmount = 0, csCount = 1, csPercentage = Fin 0\<rparr>]"
    by (simp add: getSpendingByCategory_def zeroExpenseDb_def Let_def categoryNameOf_def
          js_plus_def toDouble_zero)
  note g1 = guarded_percentages_zero_divisor[where uid = "''u1''" and now = midJanuary
      and db = analyticsDb]
  note g2 = guarded_percentages_zero_divisor[where uid = "''u1''" and now = midFebruary
      and month = midFebruary and db = analyticsDb]
  note g3 = guarded_percentages_zero_divisor[where uid = "''u1''" and s = 0 and e = 10
      and db = zeroExpenseDb]
  have "cmpIncome (ovLastMonthComparison (getDashboardOverview ''u1'' midJanuary analyticsDb))
          = Fin 0
        \<and> cmpExpenses (ovLastMonthComparison (getDashboardOverview ''u1'' midJanuary analyticsDb))
          = Fin 0"
    using g1 h by blast
  moreover have "ovSavingsRate (getDashboardOverview ''u1'' midFebruary analyticsDb) = Fin 0
        \<and> msSavingsRate (getMonthlySummary ''u1'' midFebruary analyticsDb) = Fin 0"
    using g2 f by blast
  moreover have "map csPercentage (getSpendingByCategory ''u1'' 0 10 zeroExpenseDb) = [Fin 0]"
    using g3 z by (simp add: l)
  ultimately show ?thesis using f z by blast
qed

text \<open>
  The budget service divides by the budget amount without a guard: for a budget of amount
  0 with 50 spent, \<open>percentageUsed\<close> is \<open>Infinity\<close>, not 0.
\<close>

theorem budget_percentage_unguarded:
  "bAmount zeroBudget = 0
   \<and> getBudget ''u1'' ''b0'' zeroBudgetDb = Inr (budgetProgress ''u1'' zeroBudgetDb zeroBudget)
   \<and> spent (budgetProgress ''u1'' zeroBudgetDb zeroBudget) = 50
   \<and> percentageUsed (budgetProgress ''u1'' zeroBudgetDb zeroBudget) = PosInf"
proof -
  have z: "bAmount zeroBudget = 0" "bId zeroBudget = ''b0''" "bUserId zeroBudget = ''u1''"
    by (simp_all add: zeroBudget_def)
  have d: "toDouble 50 = 50" "toDouble 0 = 0" by code_simp+
  have s: "calculateSpending ''u1'' zeroBudget zeroBudgetDb = 50"
    by (simp add: calculateSpending_def aggregateAmount_def zeroBudgetDb_def zeroBudget_def d)
  have g: "getBudget ''u1'' ''b0'' zeroBudgetDb
             = Inr (budgetProgress ''u1'' zeroBudgetDb zeroBudget)"
    using z by (simp add: getBudget_def zeroBudgetDb_def)
  show ?thesis
    using z s g by (simp add: budgetProgress_fields js_div_def d)
qed

lemma year_of_midJanuary:
  "startOfYear midJanuary = 1704067200000" "endOfYear midJanuary = 1735689599999"
  "yearOf midJanuary = 2024"
  by code_simp+

lemma year_to_date_months:
  "eachMonthOfInterval 1704067200000 midJanuary = [1704067200000]"
  by code_simp

lemma first_of_january_bounds:
  "startOfMonth 1704067200000 = 1704067200000"
  "endOfMonth 1704067200000 = 1706745599999"
  by code_simp+

text \<open>
  C4 does not hold of the code. In January the income is 100 and the expenses are 200:
  \<open>getMonthlySummary\<close> reports a savings rate of -100, and so does the monthly summary
  inside \<open>getYearToDateSummary\<close>, while \<open>getDashboardOverview\<close>, which applies
  \<open>Math.max(0, savingsRate)\<close>, reports 0 for the same month.
\<close>

theorem getMonthlySummary_savings_rate_negative:
  "msIncome (getMonthlySummary ''u1'' midJanuary analyticsDb) = 100
   \<and> msExpenses (getMonthlySummary ''u1'' midJanuary analyticsDb) = 200
   \<and> msSavingsRate (getMonthlySummary ''u1'' midJanuary analyticsDb) = Fin (- 100)
   \<and> \<not> js_ge (msSavingsRate (getMonthlySummary ''u1'' midJanuary analyticsDb)) (Fin 0)
   \<and> map msSavingsRate (ytdMonthlySummaries (getYearToDateSummary ''u1'' midJanuary analyticsDb))
       = [Fin (- 100)]
   \<and> ovSavingsRate (getDashboardOverview ''u1'' midJanuary analyticsDb) = Fin 0"
  by (simp add: getMonthlySummary_def getDashboardOverview_def getYearToDateSummary_def Let_def
        january_bounds january_totals year_of_midJanuary year_to_date_months
        first_of_january_bounds js_div_def js_minus_def js_plus_def analytics_doubles
        toDouble_zero)

section \<open>Spending trends\<close>

lemma week_of_midJanuary:
  "startOfWeek midJanuary = 1705190400000" "endOfWeek midJanuary = 1705795199999"
  by code_simp+

lemma upto_step: "i \<le> j \<Longrightarrow> [i..j] = i # [i + 1..j]"
  by (simp add: upto_rec1)

lemma week_days:
  "eachDayOfInterval 1705190400000 1705795199999 =
     [1705190400000, 1705276800000, 1705363200000, 1705449600000, 1705536000000,
      1705622400000, 1705708800000]"
  by (simp add: eachDayOfInterval_def dayNumber_def msPerDay_def upto_step)

lemma week_transactions:
  "sort_key txDate
     (filter (\<lambda>t. txUserId t = ''u1'' \<and> txStatus t = POSTED
                \<and> 1705190400000 \<le> txDate t \<and> txDate t \<le> 1705795199999)
        (transactions analyticsDb))
   = [\<lparr>txId = ''t2'', txUserId = ''u1'', txAccountId = ''a1'', txAmount = 150,
          txType = EXPENSE, txDescription = ''Groceries'', txCategoryId = Some ''c1'',
          txDate = 1705276800000, txStatus = POSTED\<rparr>,
         \<lparr>txId = ''t3'', txUserId = ''u1'', txAccountId = ''a1'', txAmount = 50,
          txType = EXPENSE, txDescription = ''Parking'', txCategoryId = None,
          txDate = 1705276800000, txStatus = POSTED\<rparr>,
      \<lparr>txId = ''t1'', txUserId = ''u1'', txAccountId = ''a1'', txAmount = 100,
          txType = INCOME, txDescription = ''Refund'', txCategoryId = None,
          txDate = 1705314600000, txStatus = POSTED\<rparr>]"
  by (simp add: analyticsDb_def)

text \<open>
  C6 does not hold of the code. For the week of 14 to 20 January 2024 the income of 100
  dated 15 January at 10:30 is posted and lies within the week, yet the bucket of 15
  January reports an income of 0 and no other bucket counts it: a day bucket only takes
  the transactions dated at the very instant the day starts, as the two expenses are.
\<close>

theorem getSpendingTrends_day_bucket_misses_income:
  "startOfWeek midJanuary \<le> midJanuary \<and> midJanuary \<le> endOfWeek midJanuary
   \<and> getSpendingTrends ''u1'' Week midJanuary analyticsDb =
  [\<lparr>tpDate = 1705190400000, tpIncome = 0, tpExpenses = 0, tpNet = 0\<rparr>,
   \<lparr>tpDate = 1705276800000, tpIncome = 0, tpExpenses = 200, tpNet = - 200\<rparr>,
   \<lparr>tpDate = 1705363200000, tpIncome = 0, tpExpenses = 0, tpNet = 0\<rparr>,
   \<lparr>tpDate = 1705449600000, tpIncome = 0, tpExpenses = 0, tpNet = 0\<rparr>,
   \<lparr>tpDate = 1705536000000, tpIncome = 0, tpExpenses = 0, tpNet = 0\<rparr>,
   \<lparr>tpDate = 1705622400000, tpIncome = 0, tpExpenses = 0, tpNet = 0\<rparr>,
   \<lparr>tpDate = 1705708800000, tpIncome = 0, tpExpenses = 0, tpNet = 0\<rparr>]"
  by (simp add: getSpendingTrends_def Let_def week_of_midJanuary week_days week_transactions
        js_plus_def js_minus_def analytics_doubles toDouble_zero)
     (simp add: midJanuary_def)

end
